theory Spec2Isabelle
  imports Complex_Main "HOL-Library.Product_Lexorder"
begin

section \<open>Values shared by the access layer\<close>

text \<open>
  Row identifiers are generated by the store (\<open>gen_random_uuid()\<close>); the model draws them
  from a counter kept in the store. Timestamps written by the store
  (\<open>CURRENT_TIMESTAMP\<close>) are readings of the store's clock, a number.

  A field of a JSON body or of a query string is a \<open>string option\<close>: \<open>None\<close> is an absent
  (undefined or null) field. JavaScript treats an absent field and the empty string as
  falsy; \<open>x || null\<close> maps every falsy value to null. A field that the routes check to be
  an integer (a page, a limit, an exhibition or join id) is the integer its digits denote.
\<close>

type_synonym uuid = nat

definition truthy :: "string option \<Rightarrow> bool" where
  "truthy x = (case x of None \<Rightarrow> False | Some v \<Rightarrow> v \<noteq> [])"

definition or_null :: "string option \<Rightarrow> string option" where
  "or_null x = (if truthy x then x else None)"

definition or_default :: "string option \<Rightarrow> string \<Rightarrow> string" where
  "or_default x d = (case x of None \<Rightarrow> d | Some v \<Rightarrow> (if v = [] then d else v))"

text \<open>SQL \<open>a = b\<close> holds only when both sides are non-null and equal.\<close>

definition sql_eq :: "'a option \<Rightarrow> 'a option \<Rightarrow> bool" where
  "sql_eq a b = (case a of None \<Rightarrow> False | Some x \<Rightarrow> (case b of None \<Rightarrow> False | Some y \<Rightarrow> x = y))"

text \<open>SQL \<open>COALESCE(p, col)\<close>: the parameter when it is non-null, the stored value otherwise.\<close>

definition coalesce :: "'a option \<Rightarrow> 'a option \<Rightarrow> 'a option" where
  "coalesce p col = (case p of None \<Rightarrow> col | Some v \<Rightarrow> Some v)"

text \<open>
  A string is a list of characters with codes below 256. \<open>String.prototype.trim\<close> strips
  white space and line terminators from both ends; the ones with a code below 256 are tab,
  line feed, vertical tab, form feed, carriage return, space and the no-break space U+00A0.
\<close>

definition is_space :: "char \<Rightarrow> bool" where
  "is_space c =
     (c \<in> set [CHR 0x09, CHR 0x0A, CHR 0x0B, CHR 0x0C, CHR 0x0D, CHR 0x20, CHR 0xA0])"

definition trim :: "string \<Rightarrow> string" where
  "trim s = rev (dropWhile is_space (rev (dropWhile is_space s)))"

text \<open>\<open>String.prototype.includes\<close>, \<open>toUpperCase\<close> and \<open>toLowerCase\<close> (on ASCII letters).\<close>

fun str_includes :: "string \<Rightarrow> string \<Rightarrow> bool" where
  "str_includes [] sub = (sub = [])"
| "str_includes (c # cs) sub = (take (length sub) (c # cs) = sub \<or> str_includes cs sub)"

definition lower_letters :: string where
  "lower_letters = ''abcdefghijklmnopqrstuvwxyz''"

definition upper_letters :: string where
  "upper_letters = ''ABCDEFGHIJKLMNOPQRSTUVWXYZ''"

definition to_upper :: "char \<Rightarrow> char" where
  "to_upper c = (case map_of (zip lower_letters upper_letters) c of None \<Rightarrow> c | Some u \<Rightarrow> u)"

definition to_lower :: "char \<Rightarrow> char" where
  "to_lower c = (case map_of (zip upper_letters lower_letters) c of None \<Rightarrow> c | Some l \<Rightarrow> l)"

definition toUpperCase :: "string \<Rightarrow> string" where
  "toUpperCase s = map to_upper s"

text \<open>Decimal digits of a number, as a template literal prints it; \<open>Array.prototype.join\<close>.\<close>

definition digit_char :: "nat \<Rightarrow> char" where
  "digit_char d = ''0123456789'' ! d"

function show_nat :: "nat \<Rightarrow> string" where
  "show_nat n = (if n < 10 then [digit_char n] else show_nat (n div 10) @ [digit_char (n mod 10)])"
  by pat_completeness auto
termination
  by (relation "measure id") auto

fun join_with :: "string \<Rightarrow> string list \<Rightarrow> string" where
  "join_with sep [] = []"
| "join_with sep [x] = x"
| "join_with sep (x # y # ys) = x @ sep @ join_with sep (y # ys)"

section \<open>Numbers\<close>

text \<open>
  A JavaScript number is a double. An integer of magnitude up to \<open>2^53\<close> is a number; a
  larger one becomes the nearest number, which has 53 significant bits (a tie goes to the
  even one). \<open>parseInt\<close> of a string of digits, the conversion of such a string in
  \<open>page - 1\<close>, and every arithmetic result are read through \<open>js_number\<close>. A value past the
  largest double is \<open>Infinity\<close> in JavaScript; the model keeps the rounded integer, which
  the store rejects as it rejects \<open>Infinity\<close> (both are past its largest integer).
\<close>

function bit_length :: "int \<Rightarrow> nat" where
  "bit_length n = (if n \<le> 0 then 0 else Suc (bit_length (n div 2)))"
  by pat_completeness auto
termination
  by (relation "measure nat") auto

declare bit_length.simps [simp del]

definition round_to_bits :: "nat \<Rightarrow> int \<Rightarrow> int" where
  "round_to_bits e m =
     (let q = m div 2 ^ e; r = m mod 2 ^ e; half = 2 ^ (e - 1)
      in (if half < r \<or> (r = half \<and> odd q) then q + 1 else q) * 2 ^ e)"

definition js_number :: "int \<Rightarrow> int" where
  "js_number n =
     (if \<bar>n\<bar> \<le> 2 ^ 53 then n
      else sgn n * round_to_bits (bit_length \<bar>n\<bar> - 53) \<bar>n\<bar>)"

text \<open>\<open>(page - 1) * limit\<close> on two numbers.\<close>

definition js_offset :: "int \<Rightarrow> int \<Rightarrow> int" where
  "js_offset page limit = js_number (js_number (page - 1) * limit)"

text \<open>
  The store reads a parameter as a value of the type its place has: \<open>LIMIT\<close> and \<open>OFFSET\<close>
  are \<open>bigint\<close>, and a value outside the range of the type is an error.

  Modelled from the spec: the schema is not among the sources. The route documentation
  gives the exhibition and join identifiers and the score as integers; the model takes the
  three columns to be \<open>integer\<close> (32 bits).
\<close>

definition in_bigint :: "int \<Rightarrow> bool" where
  "in_bigint n = (- (2 ^ 63) \<le> n \<and> n < 2 ^ 63)"

definition in_integer :: "int \<Rightarrow> bool" where
  "in_integer n = (- (2 ^ 31) \<le> n \<and> n < 2 ^ 31)"

definition integer_or_null :: "int option \<Rightarrow> bool" where
  "integer_or_null x = (case x of None \<Rightarrow> True | Some n \<Rightarrow> in_integer n)"

section \<open>Responses\<close>

text \<open>
  \<open>sendSuccess(res, status, data, message)\<close> and \<open>sendError(res, status, message)\<close> of
  \<open>utils/response.js\<close>.
\<close>

datatype 'a response =
    Success nat 'a string
  | Error nat string

section \<open>Tables\<close>

record contact =
  c_id :: uuid
  c_tenant_id :: uuid
  c_first_name :: "string option"
  c_last_name :: "string option"
  c_email :: "string option"
  c_phone :: "string option"
  c_dob :: "string option"
  c_company_id :: "uuid option"
  c_kf_visitor_id :: "string option"
  c_source :: string
  c_created_at :: nat
  c_updated_at :: nat

record company =
  co_id :: uuid
  co_tenant_id :: uuid
  co_name :: "string option"
  co_website :: "string option"
  co_phone :: "string option"
  co_address :: "string option"
  co_created_at :: nat
  co_updated_at :: nat

record team_user =
  u_id :: uuid
  u_tenant_id :: uuid
  u_email :: "string option"
  u_name :: "string option"
  u_is_active :: bool

record lead =
  l_id :: uuid
  l_tenant_id :: uuid
  l_contact_id :: "uuid option"
  l_owner_user_id :: "uuid option"
  l_title :: "string option"
  l_status :: string
  l_stage :: string
  l_score :: int
  l_source :: string
  l_exhibition_id :: "int option"
  l_join_id :: "int option"
  l_utm_source :: "string option"
  l_utm_medium :: "string option"
  l_utm_campaign :: "string option"
  l_notes :: "string option"
  l_created_at :: nat
  l_updated_at :: nat

record tag =
  t_id :: uuid
  t_tenant_id :: uuid
  t_name :: string

record task =
  k_id :: uuid
  k_tenant_id :: uuid
  k_lead_id :: "uuid option"
  k_contact_id :: "uuid option"
  k_assigned_to :: "uuid option"
  k_title :: "string option"
  k_due_at :: "nat option"
  k_priority :: "string option"
  k_status :: string
  k_created_at :: nat
  k_updated_at :: nat

record interaction =
  i_id :: uuid
  i_tenant_id :: uuid
  i_lead_id :: "uuid option"
  i_contact_id :: "uuid option"
  i_channel :: "string option"
  i_direction :: string
  i_subject :: "string option"
  i_body :: "string option"
  i_occurred_at :: nat
  i_created_by :: "uuid option"

text \<open>
  The \<open>after_data\<close> column of an activity-log row holds the JSON text of
  \<open>{source, exhibition_id, join_id, context}\<close>; the model keeps the four members. A
  free-form \<open>context\<close> object is a list of its string members. The \<open>occurred_at\<close> parameter
  is the request's \<open>scan_time\<close> text or, without one, the server's time.
\<close>

type_synonym json_object = "(string \<times> string) list"

datatype occurred = ScanTime string | ServerTime nat

record activity =
  a_id :: uuid
  a_tenant_id :: uuid
  a_entity :: string
  a_entity_id :: uuid
  a_action :: string
  a_source :: string
  a_exhibition_id :: "int option"
  a_join_id :: "int option"
  a_context :: "json_object option"
  a_occurred_at :: occurred

text \<open>
  The store. \<open>activity_insert_error\<close> is the error, if any, that the store raises for an
  \<open>INSERT INTO activity_log\<close> (a forced failure of that statement, for instance a
  \<open>scan_time\<close> such as \<open>2024-02-30T00:00:00Z\<close>, which the route's non-strict \<open>isISO8601\<close>
  accepts and the store cannot read as a timestamp). Timestamps are seconds; \<open>DATE(t)\<close> is
  the day number \<open>t div 86400\<close>.
\<close>

record store =
  tenants :: "uuid list"
  team_users :: "team_user list"
  contacts :: "contact list"
  companies :: "company list"
  leads :: "lead list"
  tags :: "tag list"
  lead_tags :: "(uuid \<times> uuid) list"
  tasks :: "task list"
  interactions :: "interaction list"
  activity_log :: "activity list"
  next_id :: uuid
  now :: nat
  activity_insert_error :: "string option"

definition empty_store :: store where
  "empty_store = \<lparr>tenants = [], team_users = [], contacts = [], companies = [], leads = [],
     tags = [], lead_tags = [], tasks = [], interactions = [], activity_log = [],
     next_id = 0, now = 0, activity_insert_error = None\<rparr>"

section \<open>Statements every list query shares\<close>

text \<open>
  A join on an id (\<open>LEFT JOIN t ON x.t_id = t.id\<close>) finds at most one row, ids being
  primary keys: the model takes the first row with the id. No join of the source compares
  tenants.
\<close>

definition join_contact :: "store \<Rightarrow> uuid option \<Rightarrow> contact option" where
  "join_contact s cid =
     (case cid of None \<Rightarrow> None | Some i \<Rightarrow> find (\<lambda>c. c_id c = i) (contacts s))"

definition join_company :: "store \<Rightarrow> uuid option \<Rightarrow> company option" where
  "join_company s cid =
     (case cid of None \<Rightarrow> None | Some i \<Rightarrow> find (\<lambda>co. co_id co = i) (companies s))"

definition join_lead :: "store \<Rightarrow> uuid option \<Rightarrow> lead option" where
  "join_lead s lid =
     (case lid of None \<Rightarrow> None | Some i \<Rightarrow> find (\<lambda>l. l_id l = i) (leads s))"

definition join_user :: "store \<Rightarrow> uuid option \<Rightarrow> team_user option" where
  "join_user s uid =
     (case uid of None \<Rightarrow> None | Some i \<Rightarrow> find (\<lambda>u. u_id u = i) (team_users s))"

text \<open>A column of a left-joined table is null when the join found no row.\<close>

definition col :: "('a \<Rightarrow> 'b option) \<Rightarrow> 'a option \<Rightarrow> 'b option" where
  "col f row = (case row of None \<Rightarrow> None | Some r \<Rightarrow> f r)"

text \<open>\<open>a || ' ' || b\<close>: null when either side is null.\<close>

definition full_name :: "contact option \<Rightarrow> string option" where
  "full_name c =
     (case col c_first_name c of None \<Rightarrow> None
      | Some a \<Rightarrow> (case col c_last_name c of None \<Rightarrow> None | Some b \<Rightarrow> Some (a @ '' '' @ b)))"

text \<open>
  \<open>x ILIKE p\<close>: in the pattern \<open>%\<close> stands for any text, \<open>_\<close> for any one character, and a
  backslash (code 0x5C) makes the character after it stand for itself; a null \<open>x\<close> matches
  nothing. The store raises an error for a pattern that ends in a lone backslash
  (\<open>dangling_escape\<close>), where \<open>like\<close> says no. The search filters pass the pattern \<open>%q%\<close>,
  which ends in \<open>%\<close>.
\<close>

fun like :: "string \<Rightarrow> string \<Rightarrow> bool" where
  "like [] t = (t = [])"
| "like [p] t =
     (if p = CHR ''%'' then True
      else if p = CHR 0x5C then False
      else (case t of [c] \<Rightarrow> p = CHR ''_'' \<or> p = c | _ \<Rightarrow> False))"
| "like (p # q # ps) t =
     (if p = CHR ''%''
      then (like (q # ps) t \<or> (case t of [] \<Rightarrow> False | c # ts \<Rightarrow> like (p # q # ps) ts))
      else if p = CHR 0x5C
      then (case t of [] \<Rightarrow> False | c # ts \<Rightarrow> q = c \<and> like ps ts)
      else (case t of [] \<Rightarrow> False | c # ts \<Rightarrow> (p = CHR ''_'' \<or> p = c) \<and> like (q # ps) ts))"

fun dangling_escape :: "string \<Rightarrow> bool" where
  "dangling_escape [] = False"
| "dangling_escape [p] = (p = CHR 0x5C)"
| "dangling_escape (p # q # ps) =
     (if p = CHR 0x5C then dangling_escape ps else dangling_escape (q # ps))"

definition ilike :: "string option \<Rightarrow> string \<Rightarrow> bool" where
  "ilike x p = (case x of None \<Rightarrow> False | Some t \<Rightarrow> like (map to_lower p) (map to_lower t))"

definition search_pattern :: "string \<Rightarrow> string" where
  "search_pattern q = ''%'' @ q @ ''%''"

text \<open>
  \<open>ORDER BY\<close>: the store reads the text after \<open>ORDER BY\<close> as an ordering of the rows, or
  rejects it. Where the source splices a client's string into that text, the store's
  reading of the text is a parameter of the model (\<open>None\<close>: the statement fails); the rows
  are then put in that order by insertion.
\<close>

type_synonym 'r order_by = "string \<Rightarrow> ('r \<Rightarrow> 'r \<Rightarrow> bool) option"

fun insert_by :: "('r \<Rightarrow> 'r \<Rightarrow> bool) \<Rightarrow> 'r \<Rightarrow> 'r list \<Rightarrow> 'r list" where
  "insert_by le x [] = [x]"
| "insert_by le x (y # ys) = (if le x y then x # y # ys else y # insert_by le x ys)"

definition order_rows :: "('r \<Rightarrow> 'r \<Rightarrow> bool) \<Rightarrow> 'r list \<Rightarrow> 'r list" where
  "order_rows le rows = foldr (insert_by le) rows []"

text \<open>
  \<open>COUNT(*) OVER()\<close> gives every row of the result the number of rows that passed the
  \<open>WHERE\<close> clause; \<open>LIMIT\<close> and \<open>OFFSET\<close> then cut the page out. The store rejects a
  \<open>LIMIT\<close> or \<open>OFFSET\<close> that is not a \<open>bigint\<close> or is negative.
\<close>

definition count_over :: "'r list \<Rightarrow> ('r \<times> nat) list" where
  "count_over rows = map (\<lambda>r. (r, length rows)) rows"

definition limit_offset :: "int \<Rightarrow> int \<Rightarrow> 'r list \<Rightarrow> string + 'r list" where
  "limit_offset limit offset rows =
     (if in_bigint limit \<and> in_bigint offset
      then (if limit < 0 then Inl ''LIMIT must not be negative''
            else if offset < 0 then Inl ''OFFSET must not be negative''
            else Inr (take (nat limit) (drop (nat offset) rows)))
      else Inl ''value out of range for type bigint'')"

text \<open>
  What the three window-count list operations do with the rows that came back:
  \<open>totalCount = rows.length > 0 ? parseInt(rows[0].total_count) : 0\<close>, and every row
  without its \<open>total_count\<close>.
\<close>

definition with_totalCount :: "('r \<times> nat) list \<Rightarrow> 'r list \<times> int" where
  "with_totalCount rows =
     (map fst rows,
      (case rows of [] \<Rightarrow> 0 | (r, total_count) # rest \<Rightarrow> js_number (int total_count)))"

text \<open>
  The pagination metadata a list controller reports: \<open>page = parseInt(filters.page || 1)\<close>,
  \<open>limit = parseInt(filters.limit || 20)\<close>, \<open>pages = Math.ceil(totalCount / limit)\<close>. The
  quotient is not a finite number when \<open>limit\<close> is 0 (\<open>None\<close>). The quotient of two numbers
  is a number again; for a count and a limit below \<open>2^53\<close> its ceiling is the ceiling of
  the exact quotient, which is what the model computes.
\<close>

record pagination =
  p_page :: int
  p_limit :: int
  p_total :: int
  p_pages :: "int option"

definition ceil_div :: "int \<Rightarrow> int \<Rightarrow> int option" where
  "ceil_div totalCount limit =
     (if limit = 0 then None else Some \<lceil>real_of_int totalCount / real_of_int limit\<rceil>)"

definition page_or_1 :: "int option \<Rightarrow> int" where
  "page_or_1 page = (case page of None \<Rightarrow> 1 | Some p \<Rightarrow> p)"

definition limit_or :: "int \<Rightarrow> int option \<Rightarrow> int" where
  "limit_or d limit = (case limit of None \<Rightarrow> d | Some l \<Rightarrow> l)"

definition paginate :: "int option \<Rightarrow> int option \<Rightarrow> int \<Rightarrow> pagination" where
  "paginate page limit totalCount =
     \<lparr>p_page = js_number (page_or_1 page), p_limit = js_number (limit_or 20 limit),
      p_total = totalCount,
      p_pages = ceil_div totalCount (js_number (limit_or 20 limit))\<rparr>"

section \<open>Connections\<close>

text \<open>
  Modelled from the spec: \<open>config/db.js\<close> is not among the sources. It exports \<open>query\<close> and
  \<open>pool\<close>. The entity access modules call \<open>db.query\<close>, which is given the statement and
  its parameters only and so has no access to a connection a controller borrowed with
  \<open>db.pool.connect()\<close>: it runs each statement on a connection of the pool, outside any
  transaction of the controller, and its writes are committed when the statement returns
  (the functions below that take and return a \<open>store\<close>). A controller's \<open>client\<close> is one
  borrowed connection: after \<open>BEGIN\<close> its writes are held back (\<open>pending\<close>) until \<open>COMMIT\<close>
  publishes them or \<open>ROLLBACK\<close> drops them.
\<close>

type_synonym pending = "activity list"

definition client_insert_activity :: "store \<Rightarrow> pending \<Rightarrow> activity \<Rightarrow> string + pending" where
  "client_insert_activity s tx row =
     (case activity_insert_error s of Some msg \<Rightarrow> Inl msg | None \<Rightarrow> Inr (tx @ [row]))"

definition client_commit :: "store \<Rightarrow> pending \<Rightarrow> store" where
  "client_commit s tx = s\<lparr>activity_log := activity_log s @ tx\<rparr>"

definition client_rollback :: "store \<Rightarrow> pending \<Rightarrow> store" where
  "client_rollback s tx = s"

text \<open>
  White space in the text of a statement is space, tab, line feed, carriage return and form
  feed.
\<close>

definition sql_space :: "char \<Rightarrow> bool" where
  "sql_space c = (c \<in> set [CHR 0x20, CHR 0x09, CHR 0x0A, CHR 0x0D, CHR 0x0C])"

definition sql_trim :: "string \<Rightarrow> string" where
  "sql_trim s = rev (dropWhile sql_space (rev (dropWhile sql_space s)))"




section \<open>ContactModel\<close>

record contact_data =
  d_first_name :: "string option"
  d_last_name :: "string option"
  d_email :: "string option"
  d_phone :: "string option"
  d_dob :: "string option"
  d_company_id :: "uuid option"
  d_kf_visitor_id :: "string option"
  d_source :: "string option"

definition no_contact_data :: contact_data where
  "no_contact_data = \<lparr>d_first_name = None, d_last_name = None, d_email = None, d_phone = None,
     d_dob = None, d_company_id = None, d_kf_visitor_id = None, d_source = None\<rparr>"

text \<open>
  \<open>findByEmailOrPhone\<close>: \<open>WHERE c.tenant_id = $1 AND (c.email = $2 OR c.phone = $3) LIMIT 1\<close>
  with \<open>$2 = email || null\<close>, \<open>$3 = phone || null\<close>. The query has no \<open>ORDER BY\<close>; the model
  returns the first matching row in table order, with the joined company name.
\<close>

definition contact_matches :: "uuid \<Rightarrow> string option \<Rightarrow> string option \<Rightarrow> contact \<Rightarrow> bool" where
  "contact_matches tenantId email phone c =
     (c_tenant_id c = tenantId \<and>
      (sql_eq (c_email c) (or_null email) \<or> sql_eq (c_phone c) (or_null phone)))"

definition ContactModel_findByEmailOrPhone ::
  "store \<Rightarrow> uuid \<Rightarrow> string option \<Rightarrow> string option \<Rightarrow> (contact \<times> string option) option" where
  "ContactModel_findByEmailOrPhone s tenantId email phone =
     (case find (contact_matches tenantId email phone) (contacts s) of
        None \<Rightarrow> None
      | Some c \<Rightarrow> Some (c, col co_name (join_company s (c_company_id c))))"

definition ContactModel_create :: "store \<Rightarrow> uuid \<Rightarrow> contact_data \<Rightarrow> contact \<times> store" where
  "ContactModel_create s tenantId d =
     (let row = \<lparr>c_id = next_id s, c_tenant_id = tenantId,
                 c_first_name = or_null (d_first_name d),
                 c_last_name = or_null (d_last_name d),
                 c_email = or_null (d_email d),
                 c_phone = or_null (d_phone d),
                 c_dob = or_null (d_dob d),
                 c_company_id = d_company_id d,
                 c_kf_visitor_id = or_null (d_kf_visitor_id d),
                 c_source = or_default (d_source d) ''manual'',
                 c_created_at = now s, c_updated_at = now s\<rparr>
      in (row, s\<lparr>contacts := contacts s @ [row], next_id := Suc (next_id s)\<rparr>))"

definition ContactModel_findById :: "store \<Rightarrow> uuid \<Rightarrow> uuid \<Rightarrow> contact option" where
  "ContactModel_findById s contactId tenantId =
     find (\<lambda>c. c_id c = contactId \<and> c_tenant_id c = tenantId) (contacts s)"

text \<open>
  \<open>update\<close> reads \<open>first_name\<close>, \<open>last_name\<close>, \<open>email\<close>, \<open>phone\<close>, \<open>dob\<close> and \<open>company_id\<close> from
  the bag (nothing else, so a \<open>kf_visitor_id\<close> or \<open>source\<close> in the bag is ignored), writes
  \<open>COALESCE($n, column)\<close> into each of the six columns and the clock into \<open>updated_at\<close>, and
  returns \<open>rows[0]\<close>, undefined when no row has the id and tenant.
\<close>

definition contact_set :: "nat \<Rightarrow> contact_data \<Rightarrow> contact \<Rightarrow> contact" where
  "contact_set t d c =
     c\<lparr>c_first_name := coalesce (d_first_name d) (c_first_name c),
       c_last_name := coalesce (d_last_name d) (c_last_name c),
       c_email := coalesce (d_email d) (c_email c),
       c_phone := coalesce (d_phone d) (c_phone c),
       c_dob := coalesce (d_dob d) (c_dob c),
       c_company_id := coalesce (d_company_id d) (c_company_id c),
       c_updated_at := t\<rparr>"

definition ContactModel_update ::
  "store \<Rightarrow> uuid \<Rightarrow> uuid \<Rightarrow> contact_data \<Rightarrow> contact option \<times> store" where
  "ContactModel_update s contactId tenantId d =
     (let hit = (\<lambda>c. c_id c = contactId \<and> c_tenant_id c = tenantId);
          rows = map (\<lambda>c. if hit c then contact_set (now s) d c else c) (contacts s)
      in (find hit rows, s\<lparr>contacts := rows\<rparr>))"

definition ContactModel_delete :: "store \<Rightarrow> uuid \<Rightarrow> uuid \<Rightarrow> bool \<times> store" where
  "ContactModel_delete s contactId tenantId =
     (let hit = (\<lambda>c. c_id c = contactId \<and> c_tenant_id c = tenantId)
      in (0 < length (filter hit (contacts s)),
          s\<lparr>contacts := filter (\<lambda>c. \<not> hit c) (contacts s)\<rparr>))"

record contact_filters =
  cf_source :: "string option"
  cf_company_id :: "uuid option"
  cf_search :: "string option"
  cf_sort_by :: "string option"
  cf_sort_order :: "string option"
  cf_page :: "int option"
  cf_limit :: "int option"

record contact_row =
  cr_contact :: contact
  cr_company_name :: "string option"
  cr_company_website :: "string option"
  cr_lead_count :: nat

definition contact_row_of :: "store \<Rightarrow> contact \<Rightarrow> contact_row" where
  "contact_row_of s c =
     \<lparr>cr_contact = c,
      cr_company_name = col co_name (join_company s (c_company_id c)),
      cr_company_website = col co_website (join_company s (c_company_id c)),
      cr_lead_count = length (filter (\<lambda>l. l_contact_id l = Some (c_id c)) (leads s))\<rparr>"

definition contact_where :: "uuid \<Rightarrow> contact_filters \<Rightarrow> contact_row \<Rightarrow> bool" where
  "contact_where tenantId f r =
     (c_tenant_id (cr_contact r) = tenantId \<and>
      (if truthy (cf_source f) then Some (c_source (cr_contact r)) = cf_source f else True) \<and>
      (case cf_company_id f of None \<Rightarrow> True
       | Some i \<Rightarrow> c_company_id (cr_contact r) = Some i) \<and>
      (if truthy (cf_search f)
       then (let p = search_pattern (the (cf_search f))
             in ilike (c_first_name (cr_contact r)) p \<or> ilike (c_last_name (cr_contact r)) p \<or>
                ilike (c_email (cr_contact r)) p \<or> ilike (c_phone (cr_contact r)) p \<or>
                ilike (cr_company_name r) p)
       else True))"

text \<open>
  The sort of \<open>findAll\<close>: \<open>sort_by.replace(/[^a-zA-Z0-9_.]/g, '')\<close>, then \<open>DESC\<close> when the
  upper-cased \<open>sort_order\<close> is \<open>DESC\<close> and \<open>ASC\<close> otherwise; \<open>c.created_at DESC\<close> when
  \<open>sort_by\<close> is falsy. \<open>findAll\<close> of the company, tag and user modules build theirs the
  same way.
\<close>

definition sort_chars :: string where
  "sort_chars = lower_letters @ upper_letters @ ''0123456789_.''"

definition sortField :: "string \<Rightarrow> string" where
  "sortField sort_by = filter (\<lambda>c. c \<in> set sort_chars) sort_by"

definition sortOrder :: "string option \<Rightarrow> string" where
  "sortOrder sort_order =
     (case sort_order of None \<Rightarrow> ''ASC''
      | Some v \<Rightarrow> (if toUpperCase v = ''DESC'' then ''DESC'' else ''ASC''))"

definition contact_order_by :: "contact_filters \<Rightarrow> string" where
  "contact_order_by f =
     (if truthy (cf_sort_by f)
      then sortField (the (cf_sort_by f)) @ '' '' @ sortOrder (cf_sort_order f)
      else ''c.created_at DESC'')"

definition ContactModel_findAll ::
  "contact_row order_by \<Rightarrow> store \<Rightarrow> uuid \<Rightarrow> int \<Rightarrow> int \<Rightarrow> contact_filters
     \<Rightarrow> string + contact_row list" where
  "ContactModel_findAll order_by s tenantId limit offset f =
     (case order_by (contact_order_by f) of
        None \<Rightarrow> Inl ''ORDER BY rejected''
      | Some le \<Rightarrow>
          limit_offset limit offset
            (order_rows le (filter (contact_where tenantId f) (map (contact_row_of s) (contacts s)))))"

text \<open>\<open>countTotal\<close>: \<open>parseInt(rows[0].count)\<close> of \<open>SELECT COUNT(*)\<close> under the same filters.\<close>

definition ContactModel_countTotal :: "store \<Rightarrow> uuid \<Rightarrow> contact_filters \<Rightarrow> int" where
  "ContactModel_countTotal s tenantId f =
     js_number (int (length (filter (contact_where tenantId f)
                               (map (contact_row_of s) (contacts s)))))"

section \<open>CompanyModel\<close>

record company_data =
  cd_name :: "string option"
  cd_website :: "string option"
  cd_phone :: "string option"
  cd_address :: "string option"

definition company_set :: "nat \<Rightarrow> company_data \<Rightarrow> company \<Rightarrow> company" where
  "company_set t d c =
     c\<lparr>co_name := coalesce (cd_name d) (co_name c),
       co_website := coalesce (cd_website d) (co_website c),
       co_phone := coalesce (cd_phone d) (co_phone c),
       co_address := coalesce (cd_address d) (co_address c),
       co_updated_at := t\<rparr>"

definition CompanyModel_update ::
  "store \<Rightarrow> uuid \<Rightarrow> uuid \<Rightarrow> company_data \<Rightarrow> company option \<times> store" where
  "CompanyModel_update s companyId tenantId d =
     (let hit = (\<lambda>c. co_id c = companyId \<and> co_tenant_id c = tenantId);
          rows = map (\<lambda>c. if hit c then company_set (now s) d c else c) (companies s)
      in (find hit rows, s\<lparr>companies := rows\<rparr>))"

section \<open>LeadModel\<close>

record lead_data =
  ld_contact_id :: "uuid option"
  ld_owner_user_id :: "uuid option"
  ld_title :: "string option"
  ld_status :: "string option"
  ld_stage :: "string option"
  ld_score :: "int option"
  ld_source :: "string option"
  ld_exhibition_id :: "int option"
  ld_join_id :: "int option"
  ld_utm_source :: "string option"
  ld_utm_medium :: "string option"
  ld_utm_campaign :: "string option"
  ld_notes :: "string option"

text \<open>
  The projections: \<open>l.*\<close> with the contact's name, email and phone and the company's name
  (\<open>getCompleteLeadData\<close>); the same with the owner's name (\<open>getLeadsWithFilters\<close>); and with
  the contact's date of birth, the company's website, the owner's name and email and the
  lead's tags (\<open>findByIdWithDetails\<close>).
\<close>

record lead_view =
  lv_lead :: lead
  lv_first_name :: "string option"
  lv_last_name :: "string option"
  lv_email :: "string option"
  lv_phone :: "string option"
  lv_company_name :: "string option"

record lead_row = lead_view +
  lv_owner_name :: "string option"

record lead_details = lead_view +
  lv_dob :: "string option"
  lv_company_website :: "string option"
  lv_owner :: "string option"
  lv_owner_email :: "string option"
  lv_tags :: "(uuid \<times> string) list"

definition lead_company :: "store \<Rightarrow> lead \<Rightarrow> company option" where
  "lead_company s l = join_company s (col c_company_id (join_contact s (l_contact_id l)))"

definition lead_view_of :: "store \<Rightarrow> lead \<Rightarrow> lead_view" where
  "lead_view_of s l =
     \<lparr>lv_lead = l,
      lv_first_name = col c_first_name (join_contact s (l_contact_id l)),
      lv_last_name = col c_last_name (join_contact s (l_contact_id l)),
      lv_email = col c_email (join_contact s (l_contact_id l)),
      lv_phone = col c_phone (join_contact s (l_contact_id l)),
      lv_company_name = col co_name (lead_company s l)\<rparr>"

definition lead_row_of :: "store \<Rightarrow> lead \<Rightarrow> lead_row" where
  "lead_row_of s l =
     \<lparr>lv_lead = l,
      lv_first_name = col c_first_name (join_contact s (l_contact_id l)),
      lv_last_name = col c_last_name (join_contact s (l_contact_id l)),
      lv_email = col c_email (join_contact s (l_contact_id l)),
      lv_phone = col c_phone (join_contact s (l_contact_id l)),
      lv_company_name = col co_name (lead_company s l),
      lv_owner_name = col u_name (join_user s (l_owner_user_id l))\<rparr>"

definition lead_tags_of :: "store \<Rightarrow> lead \<Rightarrow> (uuid \<times> string) list" where
  "lead_tags_of s l =
     concat (map (\<lambda>(lead_id, tag_id).
                    if lead_id = l_id l
                    then (case find (\<lambda>t. t_id t = tag_id) (tags s) of
                            None \<Rightarrow> [] | Some t \<Rightarrow> [(t_id t, t_name t)])
                    else [])
                 (lead_tags s))"

definition lead_details_of :: "store \<Rightarrow> lead \<Rightarrow> lead_details" where
  "lead_details_of s l =
     \<lparr>lv_lead = l,
      lv_first_name = col c_first_name (join_contact s (l_contact_id l)),
      lv_last_name = col c_last_name (join_contact s (l_contact_id l)),
      lv_email = col c_email (join_contact s (l_contact_id l)),
      lv_phone = col c_phone (join_contact s (l_contact_id l)),
      lv_company_name = col co_name (lead_company s l),
      lv_dob = col c_dob (join_contact s (l_contact_id l)),
      lv_company_website = col co_website (lead_company s l),
      lv_owner = col u_name (join_user s (l_owner_user_id l)),
      lv_owner_email = col u_email (join_user s (l_owner_user_id l)),
      lv_tags = lead_tags_of s l\<rparr>"

record lead_filters =
  lf_status :: "string option"
  lf_stage :: "string option"
  lf_owner :: "uuid option"
  lf_exhibition_id :: "int option"
  lf_q :: "string option"
  lf_page :: "int option"
  lf_limit :: "int option"
  lf_sort :: "string option"
  lf_order :: "string option"

definition no_lead_filters :: lead_filters where
  "no_lead_filters = \<lparr>lf_status = None, lf_stage = None, lf_owner = None,
     lf_exhibition_id = None, lf_q = None, lf_page = None, lf_limit = None, lf_sort = None,
     lf_order = None\<rparr>"

definition lead_where :: "uuid \<Rightarrow> lead_filters \<Rightarrow> lead_row \<Rightarrow> bool" where
  "lead_where tenantId f r =
     (l_tenant_id (lv_lead r) = tenantId \<and>
      (if truthy (lf_status f) then Some (l_status (lv_lead r)) = lf_status f else True) \<and>
      (if truthy (lf_stage f) then Some (l_stage (lv_lead r)) = lf_stage f else True) \<and>
      (case lf_owner f of None \<Rightarrow> True | Some u \<Rightarrow> l_owner_user_id (lv_lead r) = Some u) \<and>
      (case lf_exhibition_id f of None \<Rightarrow> True
       | Some e \<Rightarrow> l_exhibition_id (lv_lead r) = Some e) \<and>
      (if truthy (lf_q f)
       then (let p = search_pattern (the (lf_q f))
             in ilike (l_title (lv_lead r)) p \<or> ilike (lv_first_name r) p \<or>
                ilike (lv_last_name r) p \<or> ilike (lv_email r) p)
       else True))"

text \<open>
  The parameter of \<open>l.exhibition_id = $n\<close> is read as an \<open>integer\<close>, whatever the rows are.

  The text after \<open>ORDER BY\<close>: \<open>l.${sort} ${sortOrder}\<close>, with \<open>sort = 'created_at'\<close> and
  \<open>order = 'desc'\<close> for an absent member of the bag and \<open>sortOrder = order.toUpperCase()\<close>.
\<close>

definition lead_sort :: "lead_filters \<Rightarrow> string" where
  "lead_sort f = (case lf_sort f of None \<Rightarrow> ''created_at'' | Some v \<Rightarrow> v)"

definition lead_order_by :: "lead_filters \<Rightarrow> string" where
  "lead_order_by f =
     ''l.'' @ lead_sort f @ '' '' @
     toUpperCase (case lf_order f of None \<Rightarrow> ''desc'' | Some v \<Rightarrow> v)"

definition lead_matching :: "store \<Rightarrow> uuid \<Rightarrow> lead_filters \<Rightarrow> lead_row list" where
  "lead_matching s tenantId f = filter (lead_where tenantId f) (map (lead_row_of s) (leads s))"

text \<open>
  \<open>page\<close> and \<open>limit\<close> are the strings of the query (or the defaults 1 and 20):
  \<open>(page - 1) * limit\<close> converts them to numbers, and \<open>LIMIT\<close> is passed the string itself.
\<close>

definition LeadModel_getLeadsWithFilters ::
  "lead_row order_by \<Rightarrow> store \<Rightarrow> uuid \<Rightarrow> lead_filters \<Rightarrow> string + (lead_row list \<times> int)" where
  "LeadModel_getLeadsWithFilters order_by s tenantId f =
     (let page = page_or_1 (lf_page f);
          limit = limit_or 20 (lf_limit f);
          offset = js_offset (js_number page) (js_number limit)
      in case order_by (lead_order_by f) of
           None \<Rightarrow> Inl ''ORDER BY rejected''
         | Some le \<Rightarrow>
             if \<not> integer_or_null (lf_exhibition_id f)
             then Inl ''value out of range for type integer''
             else
               (case limit_offset limit offset
                       (count_over (order_rows le (lead_matching s tenantId f))) of
                  Inl e \<Rightarrow> Inl e
                | Inr rows \<Rightarrow> Inr (with_totalCount rows)))"

text \<open>
  \<open>create\<close>: the destructuring defaults (\<open>status = 'new'\<close>, \<open>stage = 'lead'\<close>, \<open>score = 0\<close>,
  \<open>source = 'manual'\<close>) apply to an absent member only. The store rejects a score, an
  exhibition id or a join id that is not an \<open>integer\<close>.
\<close>

definition LeadModel_create :: "store \<Rightarrow> uuid \<Rightarrow> lead_data \<Rightarrow> string + (lead \<times> store)" where
  "LeadModel_create s tenantId d =
     (let row = \<lparr>l_id = next_id s, l_tenant_id = tenantId,
                 l_contact_id = ld_contact_id d,
                 l_owner_user_id = ld_owner_user_id d,
                 l_title = ld_title d,
                 l_status = (case ld_status d of None \<Rightarrow> ''new'' | Some v \<Rightarrow> v),
                 l_stage = (case ld_stage d of None \<Rightarrow> ''lead'' | Some v \<Rightarrow> v),
                 l_score = (case ld_score d of None \<Rightarrow> 0 | Some v \<Rightarrow> v),
                 l_source = (case ld_source d of None \<Rightarrow> ''manual'' | Some v \<Rightarrow> v),
                 l_exhibition_id = ld_exhibition_id d,
                 l_join_id = ld_join_id d,
                 l_utm_source = ld_utm_source d,
                 l_utm_medium = ld_utm_medium d,
                 l_utm_campaign = ld_utm_campaign d,
                 l_notes = ld_notes d,
                 l_created_at = now s, l_updated_at = now s\<rparr>
      in if integer_or_null (ld_score d) \<and> integer_or_null (ld_exhibition_id d) \<and>
            integer_or_null (ld_join_id d)
         then Inr (row, s\<lparr>leads := leads s @ [row], next_id := Suc (next_id s)\<rparr>)
         else Inl ''value out of range for type integer'')"

definition LeadModel_findByIdWithDetails :: "store \<Rightarrow> uuid \<Rightarrow> uuid \<Rightarrow> lead_details option" where
  "LeadModel_findByIdWithDetails s leadId tenantId =
     map_option (lead_details_of s)
       (find (\<lambda>l. l_id l = leadId \<and> l_tenant_id l = tenantId) (leads s))"

definition LeadModel_exists :: "store \<Rightarrow> uuid \<Rightarrow> uuid \<Rightarrow> bool" where
  "LeadModel_exists s leadId tenantId =
     (0 < length (filter (\<lambda>l. l_id l = leadId \<and> l_tenant_id l = tenantId) (leads s)))"

text \<open>\<open>getCompleteLeadData(leadId)\<close>: \<open>WHERE l.id = $1\<close>, and \<open>rows[0] || null\<close>.\<close>

definition LeadModel_getCompleteLeadData :: "store \<Rightarrow> uuid \<Rightarrow> lead_view option" where
  "LeadModel_getCompleteLeadData s leadId =
     map_option (lead_view_of s) (find (\<lambda>l. l_id l = leadId) (leads s))"

definition LeadModel_delete :: "store \<Rightarrow> uuid \<Rightarrow> uuid \<Rightarrow> bool \<times> store" where
  "LeadModel_delete s leadId tenantId =
     (let hit = (\<lambda>l. l_id l = leadId \<and> l_tenant_id l = tenantId)
      in (0 < length (filter hit (leads s)), s\<lparr>leads := filter (\<lambda>l. \<not> hit l) (leads s)\<rparr>))"

subsection \<open>LeadModel.update\<close>

text \<open>
  \<open>update(leadId, tenantId, updates)\<close> writes the statement
  \<open>UPDATE leads SET ${setClause}, updated_at = CURRENT_TIMESTAMP WHERE id = $1 AND tenant_id = $2
  RETURNING *\<close>, where \<open>setClause\<close> joins \<open>${field} = $${index + 3}\<close> over the keys of the bag
  with \<open>', '\<close>, and passes \<open>[leadId, tenantId, ...values]\<close>.
\<close>

datatype sql_value = Null | Text string | Number int | Id uuid | Time nat

definition setClause :: "string list \<Rightarrow> string" where
  "setClause names =
     join_with '', ''
       (map (\<lambda>(field, index). field @ '' = $'' @ show_nat (index + 3))
            (zip names [0..<length names]))"

definition lead_update_set :: "string list \<Rightarrow> string" where
  "lead_update_set names = setClause names @ '', updated_at = CURRENT_TIMESTAMP''"

text \<open>
  The store's reading of the text between \<open>SET\<close> and \<open>WHERE\<close>: a list of assignments
  \<open>column = value\<close> separated by commas, none of them empty, where a value is a parameter
  \<open>$n\<close> or \<open>CURRENT_TIMESTAMP\<close>. Anything else is a syntax error.
\<close>

fun split_on :: "char \<Rightarrow> string \<Rightarrow> string list" where
  "split_on d [] = [[]]"
| "split_on d (c # cs) =
     (if c = d then [] # split_on d cs
      else (case split_on d cs of [] \<Rightarrow> [[c]] | p # ps \<Rightarrow> (c # p) # ps))"

definition parse_assignment :: "string \<Rightarrow> (string \<times> string) option" where
  "parse_assignment item =
     (case split_on CHR ''='' item of
        [lhs, rhs] \<Rightarrow> (if sql_trim lhs = [] \<or> sql_trim rhs = [] then None
                       else Some (sql_trim lhs, sql_trim rhs))
      | _ \<Rightarrow> None)"

definition parse_set_list :: "string \<Rightarrow> (string \<times> string) list option" where
  "parse_set_list set_text = those (map parse_assignment (split_on CHR '','' set_text))"

fun read_nat :: "string \<Rightarrow> nat \<Rightarrow> nat option" where
  "read_nat [] acc = Some acc"
| "read_nat (c # cs) acc =
     (case map_of (zip ''0123456789'' [0..<10]) c of
        None \<Rightarrow> None
      | Some d \<Rightarrow> read_nat cs (10 * acc + d))"

definition eval_value :: "sql_value list \<Rightarrow> nat \<Rightarrow> string \<Rightarrow> sql_value option" where
  "eval_value params t rhs =
     (if rhs = ''CURRENT_TIMESTAMP'' then Some (Time t)
      else (case rhs of
              [] \<Rightarrow> None
            | c # ds \<Rightarrow>
                (if c = CHR ''$'' \<and> ds \<noteq> []
                 then (case read_nat ds 0 of
                         None \<Rightarrow> None
                       | Some n \<Rightarrow> (if 1 \<le> n \<and> n \<le> length params
                                    then Some (params ! (n - 1)) else None))
                 else None)))"

definition text_column :: "sql_value \<Rightarrow> string option option" where
  "text_column v = (case v of Null \<Rightarrow> Some None | Text x \<Rightarrow> Some (Some x) | _ \<Rightarrow> None)"

definition int_column :: "sql_value \<Rightarrow> int option option" where
  "int_column v = (case v of Null \<Rightarrow> Some None | Number x \<Rightarrow> Some (Some x) | _ \<Rightarrow> None)"

definition id_column :: "sql_value \<Rightarrow> uuid option option" where
  "id_column v = (case v of Null \<Rightarrow> Some None | Id x \<Rightarrow> Some (Some x) | _ \<Rightarrow> None)"

text \<open>One assignment to a row of \<open>leads\<close>; \<open>None\<close> when the table has no such column or the
  column does not take the value.\<close>

definition lead_assign :: "string \<Rightarrow> sql_value \<Rightarrow> lead \<Rightarrow> lead option" where
  "lead_assign column v l =
     (if column = ''id'' then (case v of Id x \<Rightarrow> Some (l\<lparr>l_id := x\<rparr>) | _ \<Rightarrow> None)
      else if column = ''tenant_id'' then (case v of Id x \<Rightarrow> Some (l\<lparr>l_tenant_id := x\<rparr>) | _ \<Rightarrow> None)
      else if column = ''contact_id'' then map_option (\<lambda>x. l\<lparr>l_contact_id := x\<rparr>) (id_column v)
      else if column = ''owner_user_id'' then map_option (\<lambda>x. l\<lparr>l_owner_user_id := x\<rparr>) (id_column v)
      else if column = ''title'' then map_option (\<lambda>x. l\<lparr>l_title := x\<rparr>) (text_column v)
      else if column = ''status'' then (case v of Text x \<Rightarrow> Some (l\<lparr>l_status := x\<rparr>) | _ \<Rightarrow> None)
      else if column = ''stage'' then (case v of Text x \<Rightarrow> Some (l\<lparr>l_stage := x\<rparr>) | _ \<Rightarrow> None)
      else if column = ''score'' then (case v of Number x \<Rightarrow> Some (l\<lparr>l_score := x\<rparr>) | _ \<Rightarrow> None)
      else if column = ''source'' then (case v of Text x \<Rightarrow> Some (l\<lparr>l_source := x\<rparr>) | _ \<Rightarrow> None)
      else if column = ''exhibition_id'' then map_option (\<lambda>x. l\<lparr>l_exhibition_id := x\<rparr>) (int_column v)
      else if column = ''join_id'' then map_option (\<lambda>x. l\<lparr>l_join_id := x\<rparr>) (int_column v)
      else if column = ''utm_source'' then map_option (\<lambda>x. l\<lparr>l_utm_source := x\<rparr>) (text_column v)
      else if column = ''utm_medium'' then map_option (\<lambda>x. l\<lparr>l_utm_medium := x\<rparr>) (text_column v)
      else if column = ''utm_campaign'' then map_option (\<lambda>x. l\<lparr>l_utm_campaign := x\<rparr>) (text_column v)
      else if column = ''notes'' then map_option (\<lambda>x. l\<lparr>l_notes := x\<rparr>) (text_column v)
      else if column = ''created_at'' then (case v of Time x \<Rightarrow> Some (l\<lparr>l_created_at := x\<rparr>) | _ \<Rightarrow> None)
      else if column = ''updated_at'' then (case v of Time x \<Rightarrow> Some (l\<lparr>l_updated_at := x\<rparr>) | _ \<Rightarrow> None)
      else None)"

fun lead_assign_all :: "(string \<times> sql_value) list \<Rightarrow> lead \<Rightarrow> lead option" where
  "lead_assign_all [] l = Some l"
| "lead_assign_all ((column, v) # rest) l =
     (case lead_assign column v l of None \<Rightarrow> None | Some l' \<Rightarrow> lead_assign_all rest l')"

definition LeadModel_update ::
  "store \<Rightarrow> uuid \<Rightarrow> uuid \<Rightarrow> (string \<times> sql_value) list \<Rightarrow> string + (lead option \<times> store)" where
  "LeadModel_update s leadId tenantId updates =
     (let names = map fst updates;
          params = [Id leadId, Id tenantId] @ map snd updates;
          hit = (\<lambda>l. l_id l = leadId \<and> l_tenant_id l = tenantId)
      in case parse_set_list (lead_update_set names) of
           None \<Rightarrow> Inl ''syntax error''
         | Some items \<Rightarrow>
             if \<not> distinct (map fst items) then Inl ''multiple assignments to same column''
             else
               (case those (map (\<lambda>(column, rhs).
                                   map_option (Pair column) (eval_value params (now s) rhs))
                                items) of
                  None \<Rightarrow> Inl ''syntax error''
                | Some assignments \<Rightarrow>
                    (case those (map (\<lambda>l. if hit l then lead_assign_all assignments l else Some l)
                                     (leads s)) of
                       None \<Rightarrow> Inl ''column or value rejected''
                     | Some rows \<Rightarrow>
                         Inr (map_option snd (find (\<lambda>(old, new). hit old) (zip (leads s) rows)),
                              s\<lparr>leads := rows\<rparr>))))"

section \<open>TagModel\<close>

text \<open>
  \<open>createOrGet\<close>: \<open>INSERT INTO tags ... VALUES (gen_random_uuid(), $1, $2) ON CONFLICT
  (tenant_id, name) DO UPDATE SET name = EXCLUDED.name RETURNING id, name\<close> with
  \<open>$2 = tagName.trim()\<close>. A plain insert of a (tenant, name) pair the table already holds is
  a uniqueness conflict; the statement then rewrites the row it conflicts with (to the same
  name) and returns that row.
\<close>

definition insert_tag :: "store \<Rightarrow> uuid \<Rightarrow> string \<Rightarrow> tag + (tag \<times> store)" where
  "insert_tag s tenantId name =
     (case find (\<lambda>t. t_tenant_id t = tenantId \<and> t_name t = name) (tags s) of
        Some conflict \<Rightarrow> Inl conflict
      | None \<Rightarrow>
          (let row = \<lparr>t_id = next_id s, t_tenant_id = tenantId, t_name = name\<rparr>
           in Inr (row, s\<lparr>tags := tags s @ [row], next_id := Suc (next_id s)\<rparr>)))"

definition TagModel_createOrGet :: "store \<Rightarrow> uuid \<Rightarrow> string \<Rightarrow> (uuid \<times> string) \<times> store" where
  "TagModel_createOrGet s tenantId tagName =
     (case insert_tag s tenantId (trim tagName) of
        Inr (row, s') \<Rightarrow> ((t_id row, t_name row), s')
      | Inl conflict \<Rightarrow>
          ((t_id conflict, trim tagName),
           s\<lparr>tags := map (\<lambda>t. if t_id t = t_id conflict \<and> t_tenant_id t = t_tenant_id conflict
                                    \<and> t_name t = t_name conflict
                                 then t\<lparr>t_name := trim tagName\<rparr> else t) (tags s)\<rparr>))"

text \<open>
  \<open>linkToLead\<close>: \<open>INSERT INTO lead_tags (lead_id, tag_id) VALUES ($1, $2) ON CONFLICT
  (lead_id, tag_id) DO NOTHING\<close>. A plain insert of a pair the table already holds is a
  uniqueness conflict, which the statement answers by doing nothing.
\<close>

definition insert_lead_tag :: "store \<Rightarrow> uuid \<Rightarrow> uuid \<Rightarrow> string + store" where
  "insert_lead_tag s leadId tagId =
     (if (leadId, tagId) \<in> set (lead_tags s)
      then Inl ''duplicate key value violates unique constraint''
      else Inr (s\<lparr>lead_tags := lead_tags s @ [(leadId, tagId)]\<rparr>))"

definition TagModel_linkToLead :: "store \<Rightarrow> uuid \<Rightarrow> uuid \<Rightarrow> string + store" where
  "TagModel_linkToLead s leadId tagId =
     (case insert_lead_tag s leadId tagId of
        Inl conflict \<Rightarrow> Inr s
      | Inr s' \<Rightarrow> Inr s')"

text \<open>
  \<open>removeFromLead\<close>: \<open>DELETE FROM lead_tags WHERE lead_id = $1 AND tag_id = (SELECT t.id FROM
  tags t WHERE t.name = $2 AND t.tenant_id = $3)\<close>; the subquery must not yield two rows.
\<close>

definition TagModel_removeFromLead ::
  "store \<Rightarrow> uuid \<Rightarrow> string \<Rightarrow> uuid \<Rightarrow> string + (bool \<times> store)" where
  "TagModel_removeFromLead s leadId tagName tenantId =
     (case filter (\<lambda>t. t_name t = tagName \<and> t_tenant_id t = tenantId) (tags s) of
        [] \<Rightarrow> Inr (False, s)
      | [t] \<Rightarrow> Inr ((leadId, t_id t) \<in> set (lead_tags s),
                    s\<lparr>lead_tags := filter (\<lambda>p. p \<noteq> (leadId, t_id t)) (lead_tags s)\<rparr>)
      | _ \<Rightarrow> Inl ''more than one row returned by a subquery used as an expression'')"

section \<open>TaskModel\<close>

record task_filters =
  tf_status :: "string option"
  tf_assigned_to :: "uuid option"
  tf_due_before :: "nat option"
  tf_due_after :: "nat option"
  tf_priority :: "string option"
  tf_page :: "int option"
  tf_limit :: "int option"

definition no_task_filters :: task_filters where
  "no_task_filters = \<lparr>tf_status = None, tf_assigned_to = None, tf_due_before = None,
     tf_due_after = None, tf_priority = None, tf_page = None, tf_limit = None\<rparr>"

record task_row =
  tr_task :: task
  tr_lead_title :: "string option"
  tr_contact_name :: "string option"
  tr_contact_email :: "string option"
  tr_assignee_name :: "string option"
  tr_assignee_email :: "string option"

definition task_row_of :: "store \<Rightarrow> task \<Rightarrow> task_row" where
  "task_row_of s t =
     \<lparr>tr_task = t,
      tr_lead_title = col l_title (join_lead s (k_lead_id t)),
      tr_contact_name = full_name (join_contact s (k_contact_id t)),
      tr_contact_email = col c_email (join_contact s (k_contact_id t)),
      tr_assignee_name = col u_name (join_user s (k_assigned_to t)),
      tr_assignee_email = col u_email (join_user s (k_assigned_to t))\<rparr>"

definition task_where :: "uuid \<Rightarrow> task_filters \<Rightarrow> task_row \<Rightarrow> bool" where
  "task_where tenantId f r =
     (k_tenant_id (tr_task r) = tenantId \<and>
      (if truthy (tf_status f) then Some (k_status (tr_task r)) = tf_status f else True) \<and>
      (case tf_assigned_to f of None \<Rightarrow> True | Some u \<Rightarrow> k_assigned_to (tr_task r) = Some u) \<and>
      (case tf_due_before f of None \<Rightarrow> True
       | Some d \<Rightarrow> (case k_due_at (tr_task r) of None \<Rightarrow> False | Some due \<Rightarrow> due \<le> d)) \<and>
      (case tf_due_after f of None \<Rightarrow> True
       | Some d \<Rightarrow> (case k_due_at (tr_task r) of None \<Rightarrow> False | Some due \<Rightarrow> d \<le> due)) \<and>
      (if truthy (tf_priority f) then k_priority (tr_task r) = tf_priority f else True))"

text \<open>
  \<open>ORDER BY CASE ... END, t.due_at ASC NULLS LAST, t.created_at DESC\<close>: the rank of the
  priority (no rank sorts last), then the due time with null last, then the newest first.
\<close>

definition priority_rank :: "string option \<Rightarrow> nat" where
  "priority_rank p =
     (if p = Some ''urgent'' then 1 else if p = Some ''high'' then 2
      else if p = Some ''normal'' then 3 else if p = Some ''low'' then 4 else 5)"

definition task_key :: "task_row \<Rightarrow> nat \<times> (nat \<times> nat) \<times> int" where
  "task_key r =
     (priority_rank (k_priority (tr_task r)),
      (case k_due_at (tr_task r) of None \<Rightarrow> (1, 0) | Some due \<Rightarrow> (0, due)),
      - int (k_created_at (tr_task r)))"

definition task_matching :: "store \<Rightarrow> uuid \<Rightarrow> task_filters \<Rightarrow> task_row list" where
  "task_matching s tenantId f = filter (task_where tenantId f) (map (task_row_of s) (tasks s))"

definition TaskModel_getTasksWithFilters ::
  "store \<Rightarrow> uuid \<Rightarrow> task_filters \<Rightarrow> string + (task_row list \<times> int)" where
  "TaskModel_getTasksWithFilters s tenantId f =
     (let page = page_or_1 (tf_page f);
          limit = limit_or 20 (tf_limit f);
          offset = js_offset (js_number page) (js_number limit)
      in case limit_offset limit offset
                (count_over (sort_key task_key (task_matching s tenantId f))) of
           Inl e \<Rightarrow> Inl e
         | Inr rows \<Rightarrow> Inr (with_totalCount rows))"

text \<open>
  \<open>create\<close> inserts \<open>lead_id\<close>, \<open>contact_id\<close> and \<open>assigned_to\<close> as the bag has them, with
  \<open>priority = 'normal'\<close> for an absent priority. The statement names no status: the column
  takes the table's default, the first member \<open>open\<close> of the status enumeration.
\<close>

record task_data =
  td_lead_id :: "uuid option"
  td_contact_id :: "uuid option"
  td_assigned_to :: "uuid option"
  td_title :: "string option"
  td_due_at :: "nat option"
  td_priority :: "string option"

definition TaskModel_create :: "store \<Rightarrow> uuid \<Rightarrow> task_data \<Rightarrow> task \<times> store" where
  "TaskModel_create s tenantId d =
     (let row = \<lparr>k_id = next_id s, k_tenant_id = tenantId, k_lead_id = td_lead_id d,
                 k_contact_id = td_contact_id d, k_assigned_to = td_assigned_to d,
                 k_title = td_title d, k_due_at = td_due_at d,
                 k_priority = (case td_priority d of None \<Rightarrow> Some ''normal'' | Some p \<Rightarrow> Some p),
                 k_status = ''open'', k_created_at = now s, k_updated_at = now s\<rparr>
      in (row, s\<lparr>tasks := tasks s @ [row], next_id := Suc (next_id s)\<rparr>))"

section \<open>InteractionModel\<close>

record interaction_filters =
  if_lead_id :: "uuid option"
  if_contact_id :: "uuid option"
  if_channel :: "string option"
  if_direction :: "string option"
  if_date_from :: "nat option"
  if_date_to :: "nat option"
  if_page :: "int option"
  if_limit :: "int option"

definition no_interaction_filters :: interaction_filters where
  "no_interaction_filters = \<lparr>if_lead_id = None, if_contact_id = None, if_channel = None,
     if_direction = None, if_date_from = None, if_date_to = None, if_page = None,
     if_limit = None\<rparr>"

record interaction_row =
  ir_interaction :: interaction
  ir_lead_title :: "string option"
  ir_contact_name :: "string option"
  ir_contact_email :: "string option"
  ir_creator_name :: "string option"
  ir_creator_email :: "string option"

definition interaction_row_of :: "store \<Rightarrow> interaction \<Rightarrow> interaction_row" where
  "interaction_row_of s i =
     \<lparr>ir_interaction = i,
      ir_lead_title = col l_title (join_lead s (i_lead_id i)),
      ir_contact_name = full_name (join_contact s (i_contact_id i)),
      ir_contact_email = col c_email (join_contact s (i_contact_id i)),
      ir_creator_name = col u_name (join_user s (i_created_by i)),
      ir_creator_email = col u_email (join_user s (i_created_by i))\<rparr>"

definition sql_date :: "nat \<Rightarrow> nat" where
  "sql_date t = t div 86400"

definition interaction_where :: "uuid \<Rightarrow> interaction_filters \<Rightarrow> interaction_row \<Rightarrow> bool" where
  "interaction_where tenantId f r =
     (i_tenant_id (ir_interaction r) = tenantId \<and>
      (case if_lead_id f of None \<Rightarrow> True | Some l \<Rightarrow> i_lead_id (ir_interaction r) = Some l) \<and>
      (case if_contact_id f of None \<Rightarrow> True
       | Some c \<Rightarrow> i_contact_id (ir_interaction r) = Some c) \<and>
      (if truthy (if_channel f) then i_channel (ir_interaction r) = if_channel f else True) \<and>
      (if truthy (if_direction f) then Some (i_direction (ir_interaction r)) = if_direction f
       else True) \<and>
      (case if_date_from f of None \<Rightarrow> True
       | Some d \<Rightarrow> d \<le> sql_date (i_occurred_at (ir_interaction r))) \<and>
      (case if_date_to f of None \<Rightarrow> True
       | Some d \<Rightarrow> sql_date (i_occurred_at (ir_interaction r)) \<le> d))"

definition interaction_matching ::
  "store \<Rightarrow> uuid \<Rightarrow> interaction_filters \<Rightarrow> interaction_row list" where
  "interaction_matching s tenantId f =
     filter (interaction_where tenantId f) (map (interaction_row_of s) (interactions s))"

definition InteractionModel_getInteractionsWithFilters ::
  "store \<Rightarrow> uuid \<Rightarrow> interaction_filters \<Rightarrow> string + (interaction_row list \<times> int)" where
  "InteractionModel_getInteractionsWithFilters s tenantId f =
     (let page = page_or_1 (if_page f);
          limit = limit_or 20 (if_limit f);
          offset = js_offset (js_number page) (js_number limit)
      in case limit_offset limit offset
                (count_over (sort_key (\<lambda>r. - int (i_occurred_at (ir_interaction r)))
                                      (interaction_matching s tenantId f))) of
           Inl e \<Rightarrow> Inl e
         | Inr rows \<Rightarrow> Inr (with_totalCount rows))"

section \<open>List controllers\<close>

text \<open>
  \<open>getLeads\<close>, \<open>getTasks\<close> and \<open>getInteractions\<close> pass the query string to the model and
  report the model's \<open>totalCount\<close>; \<open>getContacts\<close> computes the offset itself and asks
  \<open>countTotal\<close> for the total. An error thrown by the model is answered with the
  controller's failure status.
\<close>

definition getLeads ::
  "lead_row order_by \<Rightarrow> store \<Rightarrow> uuid \<Rightarrow> lead_filters \<Rightarrow> (lead_row list \<times> pagination) response" where
  "getLeads order_by s tenant_id filters =
     (case LeadModel_getLeadsWithFilters order_by s tenant_id filters of
        Inl e \<Rightarrow> Error 500 ''Failed to fetch leads''
      | Inr (rows, totalCount) \<Rightarrow>
          Success 200 (rows, paginate (lf_page filters) (lf_limit filters) totalCount) ''Success'')"

definition getTasks ::
  "store \<Rightarrow> uuid \<Rightarrow> task_filters \<Rightarrow> (task_row list \<times> pagination) response" where
  "getTasks s tenant_id filters =
     (case TaskModel_getTasksWithFilters s tenant_id filters of
        Inl e \<Rightarrow> Error 400 ''Failed to fetch tasks''
      | Inr (rows, totalCount) \<Rightarrow>
          Success 200 (rows, paginate (tf_page filters) (tf_limit filters) totalCount) ''Success'')"

definition getInteractions ::
  "store \<Rightarrow> uuid \<Rightarrow> interaction_filters \<Rightarrow> (interaction_row list \<times> pagination) response" where
  "getInteractions s tenant_id filters =
     (case InteractionModel_getInteractionsWithFilters s tenant_id filters of
        Inl e \<Rightarrow> Error 400 ''Failed to fetch interactions''
      | Inr (rows, totalCount) \<Rightarrow>
          Success 200 (rows, paginate (if_page filters) (if_limit filters) totalCount) ''Success'')"

definition getContacts ::
  "contact_row order_by \<Rightarrow> store \<Rightarrow> uuid \<Rightarrow> contact_filters
     \<Rightarrow> (contact_row list \<times> pagination) response" where
  "getContacts order_by s tenant_id filters =
     (let page = js_number (page_or_1 (cf_page filters));
          limit = js_number (limit_or 20 (cf_limit filters));
          offset = js_offset page limit
      in case ContactModel_findAll order_by s tenant_id limit offset filters of
           Inl e \<Rightarrow> Error 400 ''Failed to fetch contacts''
         | Inr rows \<Rightarrow>
             Success 200
               (rows, paginate (cf_page filters) (cf_limit filters)
                        (ContactModel_countTotal s tenant_id filters))
               ''Success'')"

section \<open>leadsController\<close>



section \<open>tasksController\<close>

text \<open>
  \<open>createTask\<close> checks \<open>assigned_to\<close> against the tenant's active users (422 otherwise) and
  hands the body to \<open>TaskModel.create\<close>; \<open>lead_id\<close> and \<open>contact_id\<close> are not checked.
\<close>

definition UserModel_validateUser :: "store \<Rightarrow> uuid \<Rightarrow> uuid \<Rightarrow> bool" where
  "UserModel_validateUser s userId tenantId =
     (0 < length (filter (\<lambda>u. u_id u = userId \<and> u_tenant_id u = tenantId \<and> u_is_active u)
                         (team_users s)))"

definition createTask :: "store \<Rightarrow> uuid \<Rightarrow> task_data \<Rightarrow> task response \<times> store" where
  "createTask s tenant_id taskData =
     (if (case td_assigned_to taskData of None \<Rightarrow> False
          | Some u \<Rightarrow> \<not> UserModel_validateUser s u tenant_id)
      then (Error 422 ''Invalid assigned_to user ID'', s)
      else (let (task, s') = TaskModel_create s tenant_id taskData
            in (Success 201 task ''Task created successfully'', s')))"

section \<open>webhookController\<close>

record visitor =
  v_first_name :: "string option"
  v_last_name :: "string option"
  v_email :: "string option"
  v_phone :: "string option"
  v_kf_visitor_id :: "string option"
  v_dob :: "string option"

record webhook_body =
  w_tenant_id :: uuid
  w_visitor :: "visitor option"
  w_exhibition_id :: "int option"
  w_join_id :: "int option"
  w_scan_time :: "string option"
  w_context :: "json_object option"

record lead_captured =
  lc_lead_id :: uuid
  lc_contact_id :: "uuid option"
  lc_message :: string

text \<open>A template literal prints an absent value as \<open>undefined\<close>.\<close>

definition template :: "string option \<Rightarrow> string" where
  "template x = (case x of None \<Rightarrow> ''undefined'' | Some v \<Rightarrow> v)"

text \<open>
  The \<open>updateData\<close> bag of the matched branch: a name is copied only when the visitor has
  one and the stored one is falsy; the visitor id is copied whenever the visitor has one.
  \<open>Object.keys(updateData).length > 0\<close> asks whether anything was copied.
\<close>

definition webhook_updateData :: "visitor \<Rightarrow> contact \<Rightarrow> contact_data" where
  "webhook_updateData v existingContact =
     no_contact_data\<lparr>
       d_first_name :=
         (if truthy (v_first_name v) \<and> \<not> truthy (c_first_name existingContact)
          then v_first_name v else None),
       d_last_name :=
         (if truthy (v_last_name v) \<and> \<not> truthy (c_last_name existingContact)
          then v_last_name v else None),
       d_kf_visitor_id := (if truthy (v_kf_visitor_id v) then v_kf_visitor_id v else None)\<rparr>"

definition has_keys :: "contact_data \<Rightarrow> bool" where
  "has_keys d = (d_first_name d \<noteq> None \<or> d_last_name d \<noteq> None \<or> d_email d \<noteq> None \<or>
     d_phone d \<noteq> None \<or> d_dob d \<noteq> None \<or> d_company_id d \<noteq> None \<or>
     d_kf_visitor_id d \<noteq> None \<or> d_source d \<noteq> None)"

text \<open>The contact step of \<open>handleLeadCaptured\<close> (find by email or phone, then update or create).\<close>

definition webhook_contact :: "store \<Rightarrow> uuid \<Rightarrow> visitor option \<Rightarrow> uuid option \<times> store" where
  "webhook_contact s tenant_id visitor =
     (case visitor of
        None \<Rightarrow> (None, s)
      | Some v \<Rightarrow>
          if truthy (v_email v) \<or> truthy (v_phone v) then
            (case ContactModel_findByEmailOrPhone s tenant_id (v_email v) (v_phone v) of
               Some (existingContact, company_name) \<Rightarrow>
                 (let updateData = webhook_updateData v existingContact
                  in if has_keys updateData
                     then (Some (c_id existingContact),
                           snd (ContactModel_update s (c_id existingContact) tenant_id updateData))
                     else (Some (c_id existingContact), s))
             | None \<Rightarrow>
                 (let (newContact, s') = ContactModel_create s tenant_id
                        \<lparr>d_first_name = v_first_name v, d_last_name = v_last_name v,
                         d_email = v_email v, d_phone = v_phone v, d_dob = v_dob v,
                         d_company_id = None, d_kf_visitor_id = v_kf_visitor_id v,
                         d_source = Some ''fairex''\<rparr>
                  in (Some (c_id newContact), s')))
          else (None, s))"

definition webhook_leadData :: "webhook_body \<Rightarrow> uuid option \<Rightarrow> lead_data" where
  "webhook_leadData body contactId =
     (let first_name = (case w_visitor body of None \<Rightarrow> None | Some v \<Rightarrow> v_first_name v);
          last_name = (case w_visitor body of None \<Rightarrow> None | Some v \<Rightarrow> v_last_name v);
          notes = (case w_context body of None \<Rightarrow> None | Some c \<Rightarrow> map_of c ''notes'')
      in \<lparr>ld_contact_id = contactId,
          ld_owner_user_id = None,
          ld_title = Some (trim (''FairEx Lead - '' @ or_default first_name ''Visitor'' @ '' '' @
                                or_default last_name [])),
          ld_status = Some ''new'',
          ld_stage = Some ''lead'',
          ld_score = Some 0,
          ld_source = Some ''fairex'',
          ld_exhibition_id = w_exhibition_id body,
          ld_join_id = w_join_id body,
          ld_utm_source = None, ld_utm_medium = None, ld_utm_campaign = None,
          ld_notes = Some (or_default notes
             (''Lead captured from FairEx exhibition at '' @ template (w_scan_time body)))\<rparr>)"

definition webhook_activity :: "store \<Rightarrow> webhook_body \<Rightarrow> lead \<Rightarrow> activity" where
  "webhook_activity s body lead =
     \<lparr>a_id = next_id s, a_tenant_id = w_tenant_id body, a_entity = ''lead'',
      a_entity_id = l_id lead, a_action = ''created_via_webhook'',
      a_source = ''fairex_webhook'', a_exhibition_id = w_exhibition_id body,
      a_join_id = w_join_id body, a_context = w_context body,
      a_occurred_at = (case or_null (w_scan_time body) of Some t \<Rightarrow> ScanTime t
                       | None \<Rightarrow> ServerTime (now s))\<rparr>"

text \<open>
  \<open>handleLeadCaptured\<close>. \<open>BEGIN\<close>, the tenant check, the activity-log insert, \<open>COMMIT\<close> and
  \<open>ROLLBACK\<close> run on the borrowed \<open>client\<close>; the contact and lead statements run through
  \<open>ContactModel\<close> and \<open>LeadModel\<close>, that is through \<open>db.query\<close>. An error thrown by a
  statement is caught: the client is rolled back and the response is 401 when the message
  mentions a signature, 500 otherwise.
\<close>

definition webhook_failure :: "string \<Rightarrow> lead_captured response" where
  "webhook_failure message =
     (if str_includes message ''signature''
      then Error 401 ''Invalid signature''
      else Error 500 ''Webhook processing failed'')"

definition handleLeadCaptured :: "store \<Rightarrow> webhook_body \<Rightarrow> lead_captured response \<times> store" where
  "handleLeadCaptured s body =
     (let tx = [] in
      if w_tenant_id body \<notin> set (tenants s) then (Error 422 ''Invalid tenant ID'', s)
      else
        (let (contactId, s1) = webhook_contact s (w_tenant_id body) (w_visitor body)
         in case LeadModel_create s1 (w_tenant_id body) (webhook_leadData body contactId) of
              Inl message \<Rightarrow> (webhook_failure message, client_rollback s1 tx)
            | Inr (lead, s2) \<Rightarrow>
                (case client_insert_activity s2 tx (webhook_activity s2 body lead) of
                   Inr tx' \<Rightarrow>
                     (Success 200
                        \<lparr>lc_lead_id = l_id lead, lc_contact_id = contactId,
                         lc_message = ''Lead captured successfully''\<rparr>
                        ''Webhook processed successfully'',
                      client_commit (s2\<lparr>next_id := Suc (next_id s2)\<rparr>) tx')
                 | Inl message \<Rightarrow> (webhook_failure message, client_rollback s2 tx))))"

section \<open>A store with two tenants\<close>

text \<open>
  The data the closed theorems below are evaluated on: tenants 1 and 2; tenant 1 has one
  contact, three leads, a task and an interaction, tenant 2 has one lead. The store reads
  \<open>ORDER BY l.created_at\<close> (and \<open>c.created_at\<close>) in either direction and rejects any other
  sort text.
\<close>

definition ann :: contact where
  "ann = \<lparr>c_id = 10, c_tenant_id = 1, c_first_name = None, c_last_name = Some ''Lee'',
     c_email = Some ''ann@x.com'', c_phone = None, c_dob = None, c_company_id = None,
     c_kf_visitor_id = Some ''KF-1'', c_source = ''manual'', c_created_at = 1,
     c_updated_at = 1\<rparr>"

definition lead_of :: "uuid \<Rightarrow> uuid \<Rightarrow> string \<Rightarrow> nat \<Rightarrow> lead" where
  "lead_of i t title created =
     \<lparr>l_id = i, l_tenant_id = t, l_contact_id = None, l_owner_user_id = None,
      l_title = Some title, l_status = ''new'', l_stage = ''lead'', l_score = 0,
      l_source = ''manual'', l_exhibition_id = None, l_join_id = None, l_utm_source = None,
      l_utm_medium = None, l_utm_campaign = None, l_notes = None, l_created_at = created,
      l_updated_at = created\<rparr>"

definition call_back :: task where
  "call_back = \<lparr>k_id = 30, k_tenant_id = 1, k_lead_id = Some 20, k_contact_id = Some 10,
     k_assigned_to = None, k_title = Some ''Call back'', k_due_at = None,
     k_priority = Some ''normal'', k_status = ''open'', k_created_at = 5, k_updated_at = 5\<rparr>"

definition first_call :: interaction where
  "first_call = \<lparr>i_id = 40, i_tenant_id = 1, i_lead_id = Some 20, i_contact_id = Some 10,
     i_channel = Some ''call'', i_direction = ''out'', i_subject = None, i_body = Some ''Hello'',
     i_occurred_at = 6, i_created_by = None\<rparr>"

definition two_tenants :: store where
  "two_tenants = empty_store\<lparr>tenants := [1, 2], contacts := [ann],
     leads := [lead_of 20 1 ''Stand A'' 1, lead_of 21 1 ''Stand B'' 2, lead_of 22 1 ''Stand C'' 3,
               lead_of 23 2 ''Acme renewal'' 4],
     tasks := [call_back], interactions := [first_call], next_id := 100, now := 50\<rparr>"

definition by_created_at :: "lead_row order_by" where
  "by_created_at sort_text =
     (if sort_text = ''l.created_at DESC''
      then Some (\<lambda>a b. l_created_at (lv_lead b) \<le> l_created_at (lv_lead a))
      else if sort_text = ''l.created_at ASC''
      then Some (\<lambda>a b. l_created_at (lv_lead a) \<le> l_created_at (lv_lead b))
      else None)"

definition contacts_by_created_at :: "contact_row order_by" where
  "contacts_by_created_at sort_text =
     (if sort_text = ''c.created_at DESC''
      then Some (\<lambda>a b. c_created_at (cr_contact b) \<le> c_created_at (cr_contact a))
      else if sort_text = ''c.created_at ASC''
      then Some (\<lambda>a b. c_created_at (cr_contact a) \<le> c_created_at (cr_contact b))
      else None)"

definition page_2 :: lead_filters where
  "page_2 = no_lead_filters\<lparr>lf_page := Some 2\<rparr>"

definition no_contact_filters :: contact_filters where
  "no_contact_filters = \<lparr>cf_source = None, cf_company_id = None, cf_search = None,
     cf_sort_by = None, cf_sort_order = None, cf_page = None, cf_limit = None\<rparr>"

definition visitor_of :: "string option \<Rightarrow> string option \<Rightarrow> string option \<Rightarrow> string option \<Rightarrow> visitor" where
  "visitor_of first_name last_name email kf_visitor_id =
     \<lparr>v_first_name = first_name, v_last_name = last_name, v_email = email, v_phone = None,
      v_kf_visitor_id = kf_visitor_id, v_dob = None\<rparr>"

definition scan :: "visitor \<Rightarrow> webhook_body" where
  "scan v = \<lparr>w_tenant_id = 1, w_visitor = Some v, w_exhibition_id = Some 1,
     w_join_id = Some 2, w_scan_time = Some ''2024-01-01T00:00:00Z'', w_context = None\<rparr>"

text \<open>The slice of the rows that page \<open>page\<close> of size \<open>limit\<close> stands for.\<close>

definition page_slice :: "int \<Rightarrow> int \<Rightarrow> 'r list \<Rightarrow> 'r list" where
  "page_slice page limit rows = take (nat limit) (drop (nat ((page - 1) * limit)) rows)"

text \<open>
  The values the lead routes accept for the \<open>sort\<close> parameter of the list request
  (\<open>query('sort').optional().isIn(['created_at', 'updated_at', 'score'])\<close>); the contact
  routes do not check \<open>sort_by\<close>.
\<close>

definition leads_route_sorts :: "string list" where
  "leads_route_sorts = [''created_at'', ''updated_at'', ''score'']"

text \<open>
  A \<open>scan_time\<close> the route's validator accepts and the store cannot read, so that the store
  raises an error for the activity-log insert; and a task of tenant 1 that names the lead
  of tenant 2.
\<close>

definition activity_log_fails :: store where
  "activity_log_fails =
     two_tenants\<lparr>activity_insert_error := Some ''date/time field value out of range''\<rparr>"

definition foreign_lead_task :: task_data where
  "foreign_lead_task = \<lparr>td_lead_id = Some 23, td_contact_id = None, td_assigned_to = None,
     td_title = Some ''Look'', td_due_at = None, td_priority = None\<rparr>"

text \<open>
  What a scan may change in a stored contact, in the words of the backfill rule: the first
  name and the last name, each only when the stored one is empty and the visitor has one,
  and then to the visitor's; every other column but the update time stays as it is stored.
\<close>

definition backfilled :: "visitor \<Rightarrow> contact \<Rightarrow> contact \<Rightarrow> bool" where
  "backfilled v stored after =
     (c_id after = c_id stored \<and> c_tenant_id after = c_tenant_id stored \<and>
      c_email after = c_email stored \<and> c_phone after = c_phone stored \<and>
      c_dob after = c_dob stored \<and> c_company_id after = c_company_id stored \<and>
      c_kf_visitor_id after = c_kf_visitor_id stored \<and> c_source after = c_source stored \<and>
      c_created_at after = c_created_at stored \<and>
      (c_first_name after = c_first_name stored \<or>
       (c_first_name after = v_first_name v \<and> truthy (v_first_name v) \<and>
        \<not> truthy (c_first_name stored))) \<and>
      (c_last_name after = c_last_name stored \<or>
       (c_last_name after = v_last_name v \<and> truthy (v_last_name v) \<and>
        \<not> truthy (c_last_name stored))))"





text \<open>The ids of the rows of a lead list and its total, when the list operation returned.\<close>

definition listed :: "string + (lead_row list \<times> int) \<Rightarrow> (uuid list \<times> int) option" where
  "listed r = (case r of Inl e \<Rightarrow> None | Inr (rows, n) \<Rightarrow> Some (map (l_id \<circ> lv_lead) rows, n))"



section \<open>Search patterns\<close>

lemma dangling_escape_last: "dangling_escape p \<Longrightarrow> p \<noteq> [] \<and> last p = CHR 0x5C"
  by (induction p rule: dangling_escape.induct) (auto split: if_splits)

lemma search_pattern_is_read: "\<not> dangling_escape (search_pattern q)"
  using dangling_escape_last[of "search_pattern q"] by (auto simp: search_pattern_def)


section \<open>Pages and totals\<close>

lemma js_number_exact: "\<bar>n\<bar> \<le> 2 ^ 53 \<Longrightarrow> js_number n = n"
  by (simp add: js_number_def)

lemma page_bounds:
  fixes page limit :: int
  assumes "1 \<le> page" "1 \<le> limit" "page * limit \<le> 2 ^ 53"
  shows "page \<le> 2 ^ 53" "limit \<le> 2 ^ 53" "0 \<le> (page - 1) * limit"
    "(page - 1) * limit \<le> 2 ^ 53"
proof -
  have "page * 1 \<le> page * limit"
    using assms(1,2) by (intro mult_left_mono) simp_all
  then show "page \<le> 2 ^ 53" using assms(3) by simp
  have "1 * limit \<le> page * limit"
    using assms(1,2) by (intro mult_right_mono) simp_all
  then show "limit \<le> 2 ^ 53" using assms(3) by simp
  show "0 \<le> (page - 1) * limit" using assms(1,2) by simp
  have "(page - 1) * limit = page * limit - limit"
    by (simp add: left_diff_distrib)
  then show "(page - 1) * limit \<le> 2 ^ 53" using assms(2,3) by simp
qed

lemma js_offset_exact:
  assumes "1 \<le> page" "1 \<le> limit" "page * limit \<le> 2 ^ 53"
  shows "js_offset (js_number page) (js_number limit) = (page - 1) * limit"
proof -
  note b = page_bounds[OF assms]
  have p: "js_number page = page" using b(1) assms(1) by (intro js_number_exact) simp
  have l: "js_number limit = limit" using b(2) assms(2) by (intro js_number_exact) simp
  have m: "js_number (page - 1) = page - 1" using b(1) assms(1) by (intro js_number_exact) simp
  have o: "js_number ((page - 1) * limit) = (page - 1) * limit"
    using b(3,4) by (intro js_number_exact) simp
  show ?thesis by (simp add: js_offset_def p l m o)
qed

lemma small_is_bigint: "0 \<le> n \<Longrightarrow> n \<le> 2 ^ 53 \<Longrightarrow> in_bigint n"
  by (simp add: in_bigint_def)

lemma length_insert_by: "length (insert_by le x xs) = Suc (length xs)"
  by (induction xs) auto

lemma length_order_rows: "length (order_rows le rows) = length rows"
  unfolding order_rows_def by (induction rows) (auto simp: length_insert_by)

lemma with_totalCount_page:
  "with_totalCount (take n (drop k (count_over rows))) =
     (take n (drop k rows),
      if take n (drop k rows) = [] then 0 else js_number (int (length rows)))"
proof -
  have "take n (drop k (count_over rows)) = map (\<lambda>r. (r, length rows)) (take n (drop k rows))"
    by (simp add: count_over_def take_map drop_map)
  then show ?thesis
    unfolding with_totalCount_def
    by (cases "take n (drop k rows)") (auto simp: comp_def)
qed

lemma window_total:
  assumes "(case limit_offset limit offset (count_over rows) of Inl e \<Rightarrow> Inl e
            | Inr p \<Rightarrow> Inr (with_totalCount p)) = Inr (page, cnt)"
  shows "cnt = (if page = [] then 0 else js_number (int (length rows)))"
  using assms by (auto simp: limit_offset_def with_totalCount_page split: if_splits)

lemma page_slice_empty:
  assumes "1 \<le> page" "1 \<le> limit"
  shows "page_slice page limit rows = [] \<longleftrightarrow> int (length rows) \<le> (page - 1) * limit"
proof -
  have "0 \<le> (page - 1) * limit" using assms by simp
  then have "length rows \<le> nat ((page - 1) * limit) \<longleftrightarrow> int (length rows) \<le> (page - 1) * limit"
    by linarith
  then show ?thesis using assms by (auto simp: page_slice_def)
qed

lemma window_page:
  assumes "1 \<le> page" "1 \<le> limit" "page * limit \<le> 2 ^ 53"
  shows "(case limit_offset limit (js_offset (js_number page) (js_number limit))
                 (count_over rows) of
            Inl e \<Rightarrow> Inl e
          | Inr p \<Rightarrow> Inr (with_totalCount p))
         = Inr (page_slice page limit rows,
                if int (length rows) \<le> (page - 1) * limit then 0
                else js_number (int (length rows)))"
proof -
  note b = page_bounds[OF assms]
  have l: "in_bigint limit" using assms(2) b(2) by (intro small_is_bigint) simp_all
  have o: "in_bigint ((page - 1) * limit)" using b(3,4) by (rule small_is_bigint)
  have n: "\<not> limit < 0" "\<not> (page - 1) * limit < 0" using assms(2) b(3) by simp_all
  show ?thesis
    unfolding js_offset_exact[OF assms] page_slice_empty[OF assms(1,2), symmetric]
    by (simp add: limit_offset_def l o n with_totalCount_page page_slice_def)
qed

lemma lead_total:
  assumes "LeadModel_getLeadsWithFilters order_by s t f = Inr (rows, cnt)"
  shows "cnt = (if rows = [] then 0 else js_number (int (length (lead_matching s t f))))"
proof -
  obtain le where le: "order_by (lead_order_by f) = Some le"
    using assms by (auto simp: LeadModel_getLeadsWithFilters_def Let_def split: option.splits)
  have "(case limit_offset (limit_or 20 (lf_limit f))
               (js_offset (js_number (page_or_1 (lf_page f))) (js_number (limit_or 20 (lf_limit f))))
               (count_over (order_rows le (lead_matching s t f))) of
           Inl e \<Rightarrow> Inl e | Inr p \<Rightarrow> Inr (with_totalCount p)) = Inr (rows, cnt)"
    using assms le by (simp add: LeadModel_getLeadsWithFilters_def Let_def split: if_splits)
  from window_total[OF this] show ?thesis
    by (simp add: length_order_rows)
qed

lemma task_total:
  assumes "TaskModel_getTasksWithFilters s t f = Inr (rows, cnt)"
  shows "cnt = (if rows = [] then 0 else js_number (int (length (task_matching s t f))))"
proof -
  have "(case limit_offset (limit_or 20 (tf_limit f))
               (js_offset (js_number (page_or_1 (tf_page f))) (js_number (limit_or 20 (tf_limit f))))
               (count_over (sort_key task_key (task_matching s t f))) of
           Inl e \<Rightarrow> Inl e | Inr p \<Rightarrow> Inr (with_totalCount p)) = Inr (rows, cnt)"
    using assms by (simp add: TaskModel_getTasksWithFilters_def Let_def)
  from window_total[OF this] show ?thesis
    by simp
qed

lemma interaction_total:
  assumes "InteractionModel_getInteractionsWithFilters s t f = Inr (rows, cnt)"
  shows "cnt = (if rows = [] then 0 else js_number (int (length (interaction_matching s t f))))"
proof -
  have "(case limit_offset (limit_or 20 (if_limit f))
               (js_offset (js_number (page_or_1 (if_page f))) (js_number (limit_or 20 (if_limit f))))
               (count_over (sort_key (\<lambda>r. - int (i_occurred_at (ir_interaction r)))
                                     (interaction_matching s t f))) of
           Inl e \<Rightarrow> Inl e | Inr p \<Rightarrow> Inr (with_totalCount p)) = Inr (rows, cnt)"
    using assms by (simp add: InteractionModel_getInteractionsWithFilters_def Let_def)
  from window_total[OF this] show ?thesis
    by simp
qed

lemma lead_page:
  assumes "1 \<le> page_or_1 (lf_page f)" "1 \<le> limit_or 20 (lf_limit f)"
    and "page_or_1 (lf_page f) * limit_or 20 (lf_limit f) \<le> 2 ^ 53"
    and "integer_or_null (lf_exhibition_id f)"
    and "order_by (lead_order_by f) = Some le"
  shows "LeadModel_getLeadsWithFilters order_by s t f =
     Inr (page_slice (page_or_1 (lf_page f)) (limit_or 20 (lf_limit f))
            (order_rows le (lead_matching s t f)),
          if int (length (lead_matching s t f))
               \<le> (page_or_1 (lf_page f) - 1) * limit_or 20 (lf_limit f)
          then 0 else js_number (int (length (lead_matching s t f))))"
  using assms(4,5)
  by (simp add: LeadModel_getLeadsWithFilters_def Let_def window_page[OF assms(1,2,3)]
      length_order_rows)

lemma task_page:
  assumes "1 \<le> page_or_1 (tf_page f)" "1 \<le> limit_or 20 (tf_limit f)"
    and "page_or_1 (tf_page f) * limit_or 20 (tf_limit f) \<le> 2 ^ 53"
  shows "TaskModel_getTasksWithFilters s t f =
     Inr (page_slice (page_or_1 (tf_page f)) (limit_or 20 (tf_limit f))
            (sort_key task_key (task_matching s t f)),
          if int (length (task_matching s t f))
               \<le> (page_or_1 (tf_page f) - 1) * limit_or 20 (tf_limit f)
          then 0 else js_number (int (length (task_matching s t f))))"
  using window_page[OF assms, of "sort_key task_key (task_matching s t f)"]
  by (simp add: TaskModel_getTasksWithFilters_def Let_def)

lemma interaction_page:
  assumes "1 \<le> page_or_1 (if_page f)" "1 \<le> limit_or 20 (if_limit f)"
    and "page_or_1 (if_page f) * limit_or 20 (if_limit f) \<le> 2 ^ 53"
  shows "InteractionModel_getInteractionsWithFilters s t f =
     Inr (page_slice (page_or_1 (if_page f)) (limit_or 20 (if_limit f))
            (sort_key (\<lambda>r. - int (i_occurred_at (ir_interaction r)))
                      (interaction_matching s t f)),
          if int (length (interaction_matching s t f))
               \<le> (page_or_1 (if_page f) - 1) * limit_or 20 (if_limit f)
          then 0 else js_number (int (length (interaction_matching s t f))))"
  using window_page[OF assms, of "sort_key (\<lambda>r. - int (i_occurred_at (ir_interaction r)))
                      (interaction_matching s t f)"]
  by (simp add: InteractionModel_getInteractionsWithFilters_def Let_def)

lemmas two_tenants_defs =
  two_tenants_def empty_store_def lead_of_def ann_def call_back_def first_call_def

lemma three_leads_match: "length (lead_matching two_tenants 1 page_2) = 3"
  by (simp add: lead_matching_def lead_where_def lead_row_of_def two_tenants_defs page_2_def
      no_lead_filters_def truthy_def)

lemma one_task_matches:
  "length (task_matching two_tenants 1 (no_task_filters\<lparr>tf_page := Some 2\<rparr>)) = 1"
  by (simp add: task_matching_def task_where_def task_row_of_def two_tenants_defs
      no_task_filters_def truthy_def)

lemma one_interaction_matches:
  "length (interaction_matching two_tenants 1 (no_interaction_filters\<lparr>if_page := Some 2\<rparr>)) = 1"
  by (simp add: interaction_matching_def interaction_where_def interaction_row_of_def
      two_tenants_defs no_interaction_filters_def truthy_def)

lemmas upper_defs = toUpperCase_def to_upper_def lower_letters_def upper_letters_def

lemma page_2_order:
  "by_created_at (lead_order_by page_2) =
     Some (\<lambda>a b. l_created_at (lv_lead b) \<le> l_created_at (lv_lead a))"
  by (simp add: by_created_at_def lead_order_by_def lead_sort_def page_2_def no_lead_filters_def
      upper_defs)

lemma page_1_order:
  "by_created_at (lead_order_by no_lead_filters) =
     Some (\<lambda>a b. l_created_at (lv_lead b) \<le> l_created_at (lv_lead a))"
  by (simp add: by_created_at_def lead_order_by_def lead_sort_def no_lead_filters_def upper_defs)

lemma page_1_rows:
  "map (l_id \<circ> lv_lead)
     (page_slice 1 20
        (order_rows (\<lambda>a b. l_created_at (lv_lead b) \<le> l_created_at (lv_lead a))
           (lead_matching two_tenants 1 no_lead_filters))) = [22, 21, 20] \<and>
   length (lead_matching two_tenants 1 no_lead_filters) = 3"
  by (simp add: lead_matching_def lead_where_def lead_row_of_def two_tenants_defs
      no_lead_filters_def truthy_def order_rows_def page_slice_def)


text \<open>
  C10. The lead, task and interaction list operations report the window count of the first
  returned row (\<open>with_totalCount\<close>: 0 for no row, the count the first row carries otherwise,
  and every row without its count). Whenever one of them returns, its total is the number
  of rows that matched the filters (read with \<open>parseInt\<close>) if the page holds a row, and 0
  if the page is empty.
  For a page of at least 1 and a limit of at least 1 whose product is at most \<open>2^53\<close> (and,
  for leads, an exhibition filter the store can read and a sort it accepts) the operation
  returns: the rows are the matching rows in order from offset \<open>(page - 1) * limit\<close> on, at
  most \<open>limit\<close> of them, and the total is 0 when that offset is at or past the number of
  matching rows, however many rows matched, and that number otherwise.
\<close>

theorem window_count_comes_from_the_first_row:
  "with_totalCount [] = ([], 0) \<and>
   with_totalCount ((r, total_count) # rest) = (r # map fst rest, js_number (int total_count)) \<and>
   (LeadModel_getLeadsWithFilters order_by s t lf = Inr (lrows, lcount) \<longrightarrow>
      lcount = (if lrows = [] then 0 else js_number (int (length (lead_matching s t lf))))) \<and>
   (TaskModel_getTasksWithFilters s t tf = Inr (trows, tcount) \<longrightarrow>
      tcount = (if trows = [] then 0 else js_number (int (length (task_matching s t tf))))) \<and>
   (InteractionModel_getInteractionsWithFilters s t jf = Inr (jrows, jcount) \<longrightarrow>
      jcount = (if jrows = [] then 0
                else js_number (int (length (interaction_matching s t jf))))) \<and>
   (1 \<le> page_or_1 (lf_page lf) \<and> 1 \<le> limit_or 20 (lf_limit lf) \<and>
    page_or_1 (lf_page lf) * limit_or 20 (lf_limit lf) \<le> 2 ^ 53 \<and>
    integer_or_null (lf_exhibition_id lf) \<and> order_by (lead_order_by lf) = Some le \<longrightarrow>
      LeadModel_getLeadsWithFilters order_by s t lf =
        Inr (page_slice (page_or_1 (lf_page lf)) (limit_or 20 (lf_limit lf))
               (order_rows le (lead_matching s t lf)),
             if int (length (lead_matching s t lf))
                  \<le> (page_or_1 (lf_page lf) - 1) * limit_or 20 (lf_limit lf)
             then 0 else js_number (int (length (lead_matching s t lf))))) \<and>
   (1 \<le> page_or_1 (tf_page tf) \<and> 1 \<le> limit_or 20 (tf_limit tf) \<and>
    page_or_1 (tf_page tf) * limit_or 20 (tf_limit tf) \<le> 2 ^ 53 \<longrightarrow>
      TaskModel_getTasksWithFilters s t tf =
        Inr (page_slice (page_or_1 (tf_page tf)) (limit_or 20 (tf_limit tf))
               (sort_key task_key (task_matching s t tf)),
             if int (length (task_matching s t tf))
                  \<le> (page_or_1 (tf_page tf) - 1) * limit_or 20 (tf_limit tf)
             then 0 else js_number (int (length (task_matching s t tf))))) \<and>
   (1 \<le> page_or_1 (if_page jf) \<and> 1 \<le> limit_or 20 (if_limit jf) \<and>
    page_or_1 (if_page jf) * limit_or 20 (if_limit jf) \<le> 2 ^ 53 \<longrightarrow>
      InteractionModel_getInteractionsWithFilters s t jf =
        Inr (page_slice (page_or_1 (if_page jf)) (limit_or 20 (if_limit jf))
               (sort_key (\<lambda>r. - int (i_occurred_at (ir_interaction r)))
                         (interaction_matching s t jf)),
             if int (length (interaction_matching s t jf))
                  \<le> (page_or_1 (if_page jf) - 1) * limit_or 20 (if_limit jf)
             then 0 else js_number (int (length (interaction_matching s t jf)))))"
proof (intro conjI impI)
  show "with_totalCount [] = ([], 0)"
    by (simp add: with_totalCount_def)
next
  show "with_totalCount ((r, total_count) # rest) =
          (r # map fst rest, js_number (int total_count))"
    by (simp add: with_totalCount_def)
next
  assume "LeadModel_getLeadsWithFilters order_by s t lf = Inr (lrows, lcount)"
  then show "lcount = (if lrows = [] then 0 else js_number (int (length (lead_matching s t lf))))"
    by (rule lead_total)
next
  assume "TaskModel_getTasksWithFilters s t tf = Inr (trows, tcount)"
  then show "tcount = (if trows = [] then 0 else js_number (int (length (task_matching s t tf))))"
    by (rule task_total)
next
  assume "InteractionModel_getInteractionsWithFilters s t jf = Inr (jrows, jcount)"
  then show "jcount = (if jrows = [] then 0
                else js_number (int (length (interaction_matching s t jf))))"
    by (rule interaction_total)
next
  assume a: "1 \<le> page_or_1 (lf_page lf) \<and> 1 \<le> limit_or 20 (lf_limit lf) \<and>
    page_or_1 (lf_page lf) * limit_or 20 (lf_limit lf) \<le> 2 ^ 53 \<and>
    integer_or_null (lf_exhibition_id lf) \<and> order_by (lead_order_by lf) = Some le"
  show "LeadModel_getLeadsWithFilters order_by s t lf =
        Inr (page_slice (page_or_1 (lf_page lf)) (limit_or 20 (lf_limit lf))
               (order_rows le (lead_matching s t lf)),
             if int (length (lead_matching s t lf))
                  \<le> (page_or_1 (lf_page lf) - 1) * limit_or 20 (lf_limit lf)
             then 0 else js_number (int (length (lead_matching s t lf))))"
    using a by (intro lead_page) simp_all
next
  assume a: "1 \<le> page_or_1 (tf_page tf) \<and> 1 \<le> limit_or 20 (tf_limit tf) \<and>
    page_or_1 (tf_page tf) * limit_or 20 (tf_limit tf) \<le> 2 ^ 53"
  show "TaskModel_getTasksWithFilters s t tf =
        Inr (page_slice (page_or_1 (tf_page tf)) (limit_or 20 (tf_limit tf))
               (sort_key task_key (task_matching s t tf)),
             if int (length (task_matching s t tf))
                  \<le> (page_or_1 (tf_page tf) - 1) * limit_or 20 (tf_limit tf)
             then 0 else js_number (int (length (task_matching s t tf))))"
    using a by (intro task_page) simp_all
next
  assume a: "1 \<le> page_or_1 (if_page jf) \<and> 1 \<le> limit_or 20 (if_limit jf) \<and>
    page_or_1 (if_page jf) * limit_or 20 (if_limit jf) \<le> 2 ^ 53"
  show "InteractionModel_getInteractionsWithFilters s t jf =
        Inr (page_slice (page_or_1 (if_page jf)) (limit_or 20 (if_limit jf))
               (sort_key (\<lambda>r. - int (i_occurred_at (ir_interaction r)))
                         (interaction_matching s t jf)),
             if int (length (interaction_matching s t jf))
                  \<le> (page_or_1 (if_page jf) - 1) * limit_or 20 (if_limit jf)
             then 0 else js_number (int (length (interaction_matching s t jf))))"
    using a by (intro interaction_page) simp_all
qed

theorem window_count_comes_from_the_first_row_witness:
  "listed (LeadModel_getLeadsWithFilters by_created_at two_tenants 1 no_lead_filters) =
     Some ([22, 21, 20], 3) \<and>
   LeadModel_getLeadsWithFilters by_created_at two_tenants 1 page_2 = Inr ([], 0) \<and>
   length (lead_matching two_tenants 1 page_2) = 3 \<and>
   TaskModel_getTasksWithFilters two_tenants 1 (no_task_filters\<lparr>tf_page := Some 2\<rparr>) = Inr ([], 0) \<and>
   length (task_matching two_tenants 1 (no_task_filters\<lparr>tf_page := Some 2\<rparr>)) = 1 \<and>
   InteractionModel_getInteractionsWithFilters two_tenants 1
     (no_interaction_filters\<lparr>if_page := Some 2\<rparr>) = Inr ([], 0) \<and>
   length (interaction_matching two_tenants 1 (no_interaction_filters\<lparr>if_page := Some 2\<rparr>)) = 1"
proof -
  let ?le = "\<lambda>a b. l_created_at (lv_lead b) \<le> l_created_at (lv_lead a)"
  let ?tf = "no_task_filters\<lparr>tf_page := Some 2\<rparr>"
  let ?jf = "no_interaction_filters\<lparr>if_page := Some 2\<rparr>"
  note first = window_count_comes_from_the_first_row
    [where order_by = by_created_at and s = two_tenants and t = 1 and lf = no_lead_filters
       and tf = ?tf and jf = ?jf and le = ?le, THEN conjunct2, THEN conjunct2]
  note second = window_count_comes_from_the_first_row
    [where order_by = by_created_at and s = two_tenants and t = 1 and lf = page_2
       and tf = ?tf and jf = ?jf and le = ?le, THEN conjunct2, THEN conjunct2]
  have three: "js_number 3 = 3" by (simp add: js_number_def)
  have p1: "1 \<le> page_or_1 (lf_page no_lead_filters) \<and> 1 \<le> limit_or 20 (lf_limit no_lead_filters) \<and>
    page_or_1 (lf_page no_lead_filters) * limit_or 20 (lf_limit no_lead_filters) \<le> 2 ^ 53 \<and>
    integer_or_null (lf_exhibition_id no_lead_filters) \<and>
    by_created_at (lead_order_by no_lead_filters) = Some ?le"
    using page_1_order
    by (simp add: page_or_1_def limit_or_def no_lead_filters_def integer_or_null_def)
  have p2: "1 \<le> page_or_1 (lf_page page_2) \<and> 1 \<le> limit_or 20 (lf_limit page_2) \<and>
    page_or_1 (lf_page page_2) * limit_or 20 (lf_limit page_2) \<le> 2 ^ 53 \<and>
    integer_or_null (lf_exhibition_id page_2) \<and> by_created_at (lead_order_by page_2) = Some ?le"
    using page_2_order
    by (simp add: page_or_1_def limit_or_def page_2_def no_lead_filters_def integer_or_null_def)
  have pt: "1 \<le> page_or_1 (tf_page ?tf) \<and> 1 \<le> limit_or 20 (tf_limit ?tf) \<and>
    page_or_1 (tf_page ?tf) * limit_or 20 (tf_limit ?tf) \<le> 2 ^ 53"
    by (simp add: page_or_1_def limit_or_def no_task_filters_def)
  have pj: "1 \<le> page_or_1 (if_page ?jf) \<and> 1 \<le> limit_or 20 (if_limit ?jf) \<and>
    page_or_1 (if_page ?jf) * limit_or 20 (if_limit ?jf) \<le> 2 ^ 53"
    by (simp add: page_or_1_def limit_or_def no_interaction_filters_def)
  have v1: "page_or_1 (lf_page no_lead_filters) = 1" "limit_or 20 (lf_limit no_lead_filters) = 20"
    by (simp_all add: page_or_1_def limit_or_def no_lead_filters_def)
  have 1: "listed (LeadModel_getLeadsWithFilters by_created_at two_tenants 1 no_lead_filters) =
     Some ([22, 21, 20], 3)"
    using first[THEN conjunct2, THEN conjunct2, THEN conjunct2, THEN conjunct1, rule_format, OF p1,
        unfolded v1] page_1_rows three
    by (auto simp: listed_def)
  have 2: "LeadModel_getLeadsWithFilters by_created_at two_tenants 1 page_2 = Inr ([], 0)"
    using second[THEN conjunct2, THEN conjunct2, THEN conjunct2, THEN conjunct1, rule_format, OF p2]
      three_leads_match
    by (simp add: page_or_1_def limit_or_def page_2_def no_lead_filters_def page_slice_def
        length_order_rows)
  have 3: "TaskModel_getTasksWithFilters two_tenants 1 ?tf = Inr ([], 0)"
    using second[THEN conjunct2, THEN conjunct2, THEN conjunct2, THEN conjunct2, THEN conjunct1,
        rule_format, OF pt] one_task_matches
    by (simp add: page_or_1_def limit_or_def no_task_filters_def page_slice_def)
  have 4: "InteractionModel_getInteractionsWithFilters two_tenants 1 ?jf = Inr ([], 0)"
    using second[THEN conjunct2, THEN conjunct2, THEN conjunct2, THEN conjunct2, THEN conjunct2,
        rule_format, OF pj] one_interaction_matches
    by (simp add: page_or_1_def limit_or_def no_interaction_filters_def page_slice_def)
  from 1 2 3 4 three_leads_match one_task_matches one_interaction_matches show ?thesis
    by simp
qed


section \<open>The pagination metadata of a page past the end\<close>

lemma contacts_page_2_order:
  "contacts_by_created_at (contact_order_by (no_contact_filters\<lparr>cf_page := Some 2\<rparr>)) =
     Some (\<lambda>a b. c_created_at (cr_contact b) \<le> c_created_at (cr_contact a))"
  by (simp add: contacts_by_created_at_def contact_order_by_def no_contact_filters_def truthy_def)

lemma one_contact_matches:
  "ContactModel_countTotal two_tenants 1 (no_contact_filters\<lparr>cf_page := Some 2\<rparr>) = 1"
  by (simp add: ContactModel_countTotal_def contact_where_def contact_row_of_def two_tenants_defs
      no_contact_filters_def truthy_def js_number_def)

lemma no_contact_on_page_2:
  "ContactModel_findAll contacts_by_created_at two_tenants 1 20 20
     (no_contact_filters\<lparr>cf_page := Some 2\<rparr>) = Inr []"
  unfolding ContactModel_findAll_def contacts_page_2_order
  by (simp add: limit_offset_def in_bigint_def order_rows_def contact_where_def
      contact_row_of_def two_tenants_defs no_contact_filters_def truthy_def)

lemma small_ceilings: "\<lceil>(1::real) / 20\<rceil> = 1" "\<lceil>(3::real) / 20\<rceil> = 1"
  by (simp_all add: ceiling_eq_iff)

lemma small_numbers: "js_number 1 = 1" "js_number 2 = 2" "js_number 3 = 3" "js_number 20 = 20"
  by (simp_all add: js_number_def)

lemma leads_page_1:
  "\<exists>rows. LeadModel_getLeadsWithFilters by_created_at two_tenants 1 no_lead_filters =
            Inr (rows, 3) \<and> map (l_id \<circ> lv_lead) rows = [22, 21, 20]"
proof -
  have v: "page_or_1 (lf_page no_lead_filters) = 1" "limit_or 20 (lf_limit no_lead_filters) = 20"
    "integer_or_null (lf_exhibition_id no_lead_filters)"
    by (simp_all add: page_or_1_def limit_or_def no_lead_filters_def integer_or_null_def)
  have "LeadModel_getLeadsWithFilters by_created_at two_tenants 1 no_lead_filters =
          Inr (page_slice 1 20
                 (order_rows (\<lambda>a b. l_created_at (lv_lead b) \<le> l_created_at (lv_lead a))
                    (lead_matching two_tenants 1 no_lead_filters)), 3)"
    using lead_page[where order_by = by_created_at and s = two_tenants and t = 1
        and f = no_lead_filters, OF _ _ _ v(3) page_1_order, unfolded v(1,2)]
      page_1_rows small_numbers
    by auto
  then show ?thesis using page_1_rows by simp
qed

lemma leads_page_2:
  "LeadModel_getLeadsWithFilters by_created_at two_tenants 1 page_2 = Inr ([], 0)"
proof -
  have v: "page_or_1 (lf_page page_2) = 2" "limit_or 20 (lf_limit page_2) = 20"
    "integer_or_null (lf_exhibition_id page_2)"
    by (simp_all add: page_or_1_def limit_or_def page_2_def no_lead_filters_def
        integer_or_null_def)
  show ?thesis
    using lead_page[where order_by = by_created_at and s = two_tenants and t = 1
        and f = page_2, OF _ _ _ v(3) page_2_order, unfolded v(1,2)]
      three_leads_match
    by (simp add: page_slice_def length_order_rows)
qed

lemma tasks_page_2:
  "TaskModel_getTasksWithFilters two_tenants 1 (no_task_filters\<lparr>tf_page := Some 2\<rparr>) =
     Inr ([], 0)"
proof -
  have v: "page_or_1 (tf_page (no_task_filters\<lparr>tf_page := Some 2\<rparr>)) = 2"
    "limit_or 20 (tf_limit (no_task_filters\<lparr>tf_page := Some 2\<rparr>)) = 20"
    by (simp_all add: page_or_1_def limit_or_def no_task_filters_def)
  show ?thesis
    using task_page[where s = two_tenants and t = 1
        and f = "no_task_filters\<lparr>tf_page := Some 2\<rparr>", unfolded v] one_task_matches
    by (simp add: page_slice_def)
qed

lemma interactions_page_2:
  "InteractionModel_getInteractionsWithFilters two_tenants 1
     (no_interaction_filters\<lparr>if_page := Some 2\<rparr>) = Inr ([], 0)"
proof -
  have v: "page_or_1 (if_page (no_interaction_filters\<lparr>if_page := Some 2\<rparr>)) = 2"
    "limit_or 20 (if_limit (no_interaction_filters\<lparr>if_page := Some 2\<rparr>)) = 20"
    by (simp_all add: page_or_1_def limit_or_def no_interaction_filters_def)
  show ?thesis
    using interaction_page[where s = two_tenants and t = 1
        and f = "no_interaction_filters\<lparr>if_page := Some 2\<rparr>", unfolded v]
      one_interaction_matches
    by (simp add: page_slice_def)
qed

text \<open>
  C8. With a filter set that matches N rows, \<open>total\<close> is N and \<open>pages\<close> is the ceiling of
  N / limit. The lead list does not keep to that on a page past the last matching row:
  three leads of tenant 1 match and the limit is 20; page 1 reports total 3 and pages 1,
  and page 2 of the same request reports total 0 and pages 0. The task and interaction
  lists do the same with the one row that matches. The contact list, which counts with
  \<open>countTotal\<close>, reports total 1 and pages 1 on its page 2.
\<close>

theorem lead_list_loses_its_total_past_the_last_page:
  "getLeads by_created_at two_tenants 1 page_2 =
     Success 200 ([], \<lparr>p_page = 2, p_limit = 20, p_total = 0, p_pages = Some 0\<rparr>) ''Success'' \<and>
   length (lead_matching two_tenants 1 page_2) = 3 \<and>
   (\<exists>rows. getLeads by_created_at two_tenants 1 no_lead_filters =
            Success 200 (rows, \<lparr>p_page = 1, p_limit = 20, p_total = 3, p_pages = Some 1\<rparr>)
              ''Success'' \<and>
          map (l_id \<circ> lv_lead) rows = [22, 21, 20]) \<and>
   getTasks two_tenants 1 (no_task_filters\<lparr>tf_page := Some 2\<rparr>) =
     Success 200 ([], \<lparr>p_page = 2, p_limit = 20, p_total = 0, p_pages = Some 0\<rparr>) ''Success'' \<and>
   length (task_matching two_tenants 1 (no_task_filters\<lparr>tf_page := Some 2\<rparr>)) = 1 \<and>
   getInteractions two_tenants 1 (no_interaction_filters\<lparr>if_page := Some 2\<rparr>) =
     Success 200 ([], \<lparr>p_page = 2, p_limit = 20, p_total = 0, p_pages = Some 0\<rparr>) ''Success'' \<and>
   length (interaction_matching two_tenants 1 (no_interaction_filters\<lparr>if_page := Some 2\<rparr>)) = 1 \<and>
   getContacts contacts_by_created_at two_tenants 1 (no_contact_filters\<lparr>cf_page := Some 2\<rparr>) =
     Success 200 ([], \<lparr>p_page = 2, p_limit = 20, p_total = 1, p_pages = Some 1\<rparr>) ''Success''"
proof -
  have 1: "getLeads by_created_at two_tenants 1 page_2 =
     Success 200 ([], \<lparr>p_page = 2, p_limit = 20, p_total = 0, p_pages = Some 0\<rparr>) ''Success''"
    unfolding getLeads_def leads_page_2
    by (simp add: paginate_def page_or_1_def limit_or_def ceil_div_def page_2_def
        no_lead_filters_def small_numbers)
  obtain rows where r: "LeadModel_getLeadsWithFilters by_created_at two_tenants 1 no_lead_filters =
            Inr (rows, 3)" "map (l_id \<circ> lv_lead) rows = [22, 21, 20]"
    using leads_page_1 by (elim exE conjE)
  have "getLeads by_created_at two_tenants 1 no_lead_filters =
            Success 200 (rows, \<lparr>p_page = 1, p_limit = 20, p_total = 3, p_pages = Some 1\<rparr>)
              ''Success''"
    unfolding getLeads_def r(1)
    by (simp add: paginate_def page_or_1_def limit_or_def ceil_div_def no_lead_filters_def
        small_numbers small_ceilings)
  then have 2: "\<exists>rows. getLeads by_created_at two_tenants 1 no_lead_filters =
            Success 200 (rows, \<lparr>p_page = 1, p_limit = 20, p_total = 3, p_pages = Some 1\<rparr>)
              ''Success'' \<and>
          map (l_id \<circ> lv_lead) rows = [22, 21, 20]"
    using r(2) by (intro exI[of _ rows]) simp
  have o: "js_offset 2 20 = 20"
    by (simp add: js_offset_def js_number_def)
  have 3: "getContacts contacts_by_created_at two_tenants 1
             (no_contact_filters\<lparr>cf_page := Some 2\<rparr>) =
     Success 200 ([], \<lparr>p_page = 2, p_limit = 20, p_total = 1, p_pages = Some 1\<rparr>) ''Success''"
  proof -
    have v: "js_number (page_or_1 (cf_page (no_contact_filters\<lparr>cf_page := Some 2\<rparr>))) = 2"
      "js_number (limit_or 20 (cf_limit (no_contact_filters\<lparr>cf_page := Some 2\<rparr>))) = 20"
      by (simp_all add: page_or_1_def limit_or_def no_contact_filters_def small_numbers)
    show ?thesis
      unfolding getContacts_def Let_def v o no_contact_on_page_2 paginate_def one_contact_matches
      by (simp add: ceil_div_def small_ceilings)
  qed
  have 4: "getTasks two_tenants 1 (no_task_filters\<lparr>tf_page := Some 2\<rparr>) =
     Success 200 ([], \<lparr>p_page = 2, p_limit = 20, p_total = 0, p_pages = Some 0\<rparr>) ''Success''"
    unfolding getTasks_def tasks_page_2
    by (simp add: paginate_def page_or_1_def limit_or_def ceil_div_def no_task_filters_def
        small_numbers)
  have 5: "getInteractions two_tenants 1 (no_interaction_filters\<lparr>if_page := Some 2\<rparr>) =
     Success 200 ([], \<lparr>p_page = 2, p_limit = 20, p_total = 0, p_pages = Some 0\<rparr>) ''Success''"
    unfolding getInteractions_def interactions_page_2
    by (simp add: paginate_def page_or_1_def limit_or_def ceil_div_def
        no_interaction_filters_def small_numbers)
  from 1 2 3 4 5 three_leads_match one_task_matches one_interaction_matches show ?thesis
    by simp
qed

section \<open>Tenant filters\<close>

text \<open>
  C1. Every read and write path filters by the caller's tenant. The code does not:
  \<open>getCompleteLeadData\<close> selects a lead by its id alone. In the store with two tenants,
  lead 23 belongs to tenant 2: \<open>findByIdWithDetails\<close>, asked on behalf of tenant 1, finds
  nothing, and \<open>getCompleteLeadData\<close> returns the row. The joins have no tenant filter
  either: a task that tenant 1 creates with lead 23 as its \<open>lead_id\<close> is listed to tenant 1
  with the title of tenant 2's lead.
\<close>

theorem getCompleteLeadData_crosses_tenants:
  "LeadModel_findByIdWithDetails two_tenants 23 1 = None \<and>
   map_option lv_lead (LeadModel_getCompleteLeadData two_tenants 23) =
     Some (lead_of 23 2 ''Acme renewal'' 4) \<and>
   l_tenant_id (lead_of 23 2 ''Acme renewal'' 4) = 2 \<and>
   map_option (map tr_lead_title \<circ> fst)
     (case TaskModel_getTasksWithFilters (snd (createTask two_tenants 1 foreign_lead_task)) 1
             no_task_filters of Inl e \<Rightarrow> None | Inr r \<Rightarrow> Some r) =
     Some [Some ''Acme renewal'', Some ''Stand A'']"
proof -
  have 1: "LeadModel_findByIdWithDetails two_tenants 23 1 = None"
    by (simp add: LeadModel_findByIdWithDetails_def two_tenants_defs)
  have 2: "map_option lv_lead (LeadModel_getCompleteLeadData two_tenants 23) =
     Some (lead_of 23 2 ''Acme renewal'' 4)"
    by (simp add: LeadModel_getCompleteLeadData_def lead_view_of_def two_tenants_defs)
  have 3: "l_tenant_id (lead_of 23 2 ''Acme renewal'' 4) = 2"
    by (simp add: lead_of_def)
  have 4: "map_option (map tr_lead_title \<circ> fst)
     (case TaskModel_getTasksWithFilters (snd (createTask two_tenants 1 foreign_lead_task)) 1
             no_task_filters of Inl e \<Rightarrow> None | Inr r \<Rightarrow> Some r) =
     Some [Some ''Acme renewal'', Some ''Stand A'']"
    by (simp add: createTask_def TaskModel_create_def foreign_lead_task_def
        TaskModel_getTasksWithFilters_def task_matching_def task_where_def task_row_of_def
        task_key_def priority_rank_def join_lead_def join_contact_def join_user_def col_def
        full_name_def no_task_filters_def truthy_def page_or_1_def limit_or_def limit_offset_def
        js_offset_def js_number_exact in_bigint_def count_over_def with_totalCount_def Let_def
        two_tenants_defs)
  from 1 2 3 4 show ?thesis by simp
qed

section \<open>Updates with a partial bag\<close>

lemma find_map_same:
  assumes "\<And>x. P (f x) = P x"
  shows "find P (map f xs) = map_option f (find P xs)"
  using assms by (induction xs) auto

lemma company_set_empty_bag:
  "company_set t \<lparr>cd_name = None, cd_website = None, cd_phone = None, cd_address = None\<rparr> c =
     c\<lparr>co_updated_at := t\<rparr>"
  by (simp add: company_set_def coalesce_def)

lemma CompanyModel_update_empty_bag:
  "CompanyModel_update s companyId tenantId
     \<lparr>cd_name = None, cd_website = None, cd_phone = None, cd_address = None\<rparr> =
   (map_option (\<lambda>c. c\<lparr>co_updated_at := now s\<rparr>)
      (find (\<lambda>c. co_id c = companyId \<and> co_tenant_id c = tenantId) (companies s)),
    s\<lparr>companies := map (\<lambda>c. if co_id c = companyId \<and> co_tenant_id c = tenantId
                              then c\<lparr>co_updated_at := now s\<rparr> else c) (companies s)\<rparr>)"
proof -
  let ?hit = "\<lambda>c. co_id c = companyId \<and> co_tenant_id c = tenantId"
  let ?f = "\<lambda>c. if ?hit c then c\<lparr>co_updated_at := now s\<rparr> else c"
  have "find ?hit (map ?f (companies s)) = map_option ?f (find ?hit (companies s))"
    by (rule find_map_same) simp
  moreover have "map_option ?f (find ?hit (companies s)) =
        map_option (\<lambda>c. c\<lparr>co_updated_at := now s\<rparr>) (find ?hit (companies s))"
    by (cases "find ?hit (companies s)") (auto dest: find_Some_iff[THEN iffD1])
  ultimately show ?thesis
    unfolding CompanyModel_update_def Let_def company_set_empty_bag by simp
qed

lemma empty_bag_set_list: "lead_update_set [] = '', updated_at = CURRENT_TIMESTAMP''"
  by (simp add: lead_update_set_def setClause_def)

text \<open>
  C5. An update with an empty bag succeeds and changes nothing but the update time. The
  company update does (lemma \<open>CompanyModel_update_empty_bag\<close>); the lead update does not:
  with no key in the bag the text after \<open>SET\<close> starts with a comma, which the store rejects
  as a syntax error, for every lead and every store.
\<close>

theorem LeadModel_update_rejects_empty_bag:
  "LeadModel_update s leadId tenantId [] = Inl ''syntax error''"
  by (simp add: LeadModel_update_def empty_bag_set_list parse_set_list_def parse_assignment_def
      sql_trim_def)

section \<open>The transaction of the webhook\<close>

text \<open>
  C2. If a step of the webhook fails, nothing the request wrote persists. The code rolls
  back the borrowed client, on which it wrote nothing: the contact and the lead were
  written through \<open>db.query\<close>. With the activity-log insert failing, a scan of a visitor with
  a new email is answered with 500 and leaves the new contact (id 100) and the new lead
  (id 101, pointing at it) in the store, with no activity-log row.
\<close>

theorem webhook_failure_keeps_contact_and_lead:
  "fst (handleLeadCaptured activity_log_fails
          (scan (visitor_of None None (Some ''j@x.com'') None))) =
     Error 500 ''Webhook processing failed'' \<and>
   map (\<lambda>c. (c_id c, c_email c))
     (contacts (snd (handleLeadCaptured activity_log_fails
          (scan (visitor_of None None (Some ''j@x.com'') None))))) =
     [(10, Some ''ann@x.com''), (100, Some ''j@x.com'')] \<and>
   map (\<lambda>l. (l_id l, l_contact_id l))
     (leads (snd (handleLeadCaptured activity_log_fails
          (scan (visitor_of None None (Some ''j@x.com'') None))))) =
     [(20, None), (21, None), (22, None), (23, None), (101, Some 100)] \<and>
   activity_log (snd (handleLeadCaptured activity_log_fails
          (scan (visitor_of None None (Some ''j@x.com'') None)))) = [] \<and>
   contacts activity_log_fails = [ann] \<and> length (leads activity_log_fails) = 4"
  by (simp add: handleLeadCaptured_def webhook_contact_def ContactModel_findByEmailOrPhone_def
      contact_matches_def ContactModel_create_def LeadModel_create_def webhook_leadData_def
      webhook_activity_def webhook_failure_def client_insert_activity_def client_rollback_def
      scan_def visitor_of_def activity_log_fails_def truthy_def or_null_def or_default_def
      sql_eq_def integer_or_null_def in_integer_def Let_def two_tenants_defs)

section \<open>Sort fields\<close>

lemma sortField_chars: "set (sortField x) \<subseteq> set sort_chars"
  by (auto simp: sortField_def)

lemma sortField_keeps: "set x \<subseteq> set sort_chars \<Longrightarrow> sortField x = x"
  unfolding sortField_def by (induction x) auto

lemma sortOrder_values: "sortOrder v = ''ASC'' \<or> sortOrder v = ''DESC''"
  by (simp add: sortOrder_def split: option.splits)

text \<open>
  C7, as the code has it. The lead list builder has no allow-list: it emits the bag's sort
  string as it is after \<open>l.\<close>, and \<open>created_at\<close> only when the bag has none, so the emitted
  field is one of the route's three values exactly when the bag's sort is one of them or is
  absent. The contact list builder emits the bag's \<open>sort_by\<close> without the characters outside
  \<open>[a-zA-Z0-9_.]\<close> (a string made of such characters passes unchanged), followed by \<open>ASC\<close>
  or \<open>DESC\<close>, and uses its default \<open>c.created_at DESC\<close> only when \<open>sort_by\<close> is absent or
  empty.
\<close>

theorem sort_text_comes_from_the_bag:
  "(lf_sort lf = None \<longrightarrow> lead_sort lf = ''created_at'') \<and>
   (lf_sort lf = Some v \<longrightarrow> lead_sort lf = v) \<and>
   lead_order_by lf =
     ''l.'' @ lead_sort lf @ '' '' @
     toUpperCase (case lf_order lf of None \<Rightarrow> ''desc'' | Some d \<Rightarrow> d) \<and>
   (lead_sort lf \<in> set leads_route_sorts \<longleftrightarrow>
      (case lf_sort lf of None \<Rightarrow> True | Some w \<Rightarrow> w \<in> set leads_route_sorts)) \<and>
   (truthy (cf_sort_by cf) \<longrightarrow>
      contact_order_by cf = sortField (the (cf_sort_by cf)) @ '' '' @ sortOrder (cf_sort_order cf)) \<and>
   (\<not> truthy (cf_sort_by cf) \<longrightarrow> contact_order_by cf = ''c.created_at DESC'') \<and>
   set (sortField x) \<subseteq> set sort_chars \<and>
   (set x \<subseteq> set sort_chars \<longrightarrow> sortField x = x) \<and>
   (sortOrder d = ''ASC'' \<or> sortOrder d = ''DESC'')"
  using sortField_chars[of x] sortField_keeps[of x] sortOrder_values[of d]
  by (auto simp: lead_sort_def lead_order_by_def contact_order_by_def leads_route_sorts_def
      split: option.splits)

theorem sort_text_comes_from_the_bag_witness:
  "lead_order_by (no_lead_filters\<lparr>lf_sort := Some ''score'', lf_order := Some ''asc''\<rparr>) =
     ''l.score ASC'' \<and>
   ''score'' \<in> set leads_route_sorts \<and>
   contact_order_by (no_contact_filters\<lparr>cf_sort_by := Some ''name; --'',
                                         cf_sort_order := Some ''desc''\<rparr>) = ''name DESC'' \<and>
   contact_order_by no_contact_filters = ''c.created_at DESC'' \<and>
   sortField ''lead_count'' = ''lead_count''"
proof -
  have a: "truthy (cf_sort_by (no_contact_filters\<lparr>cf_sort_by := Some ''name; --'',
                                         cf_sort_order := Some ''desc''\<rparr>))"
    and b: "\<not> truthy (cf_sort_by no_contact_filters)"
    and c: "set ''lead_count'' \<subseteq> set sort_chars"
    and d: "lf_sort (no_lead_filters\<lparr>lf_sort := Some ''score'', lf_order := Some ''asc''\<rparr>) =
            Some ''score''"
    by (simp_all add: truthy_def no_contact_filters_def no_lead_filters_def sort_chars_def
        lower_letters_def upper_letters_def)
  note t = sort_text_comes_from_the_bag
    [of "no_lead_filters\<lparr>lf_sort := Some ''score'', lf_order := Some ''asc''\<rparr>" "''score''"
        "no_contact_filters\<lparr>cf_sort_by := Some ''name; --'', cf_sort_order := Some ''desc''\<rparr>"
        "''lead_count''" "Some ''desc''"]
  note u = sort_text_comes_from_the_bag[of no_lead_filters "''x''" no_contact_filters "[]" None]
  from t d have 1: "lead_order_by (no_lead_filters\<lparr>lf_sort := Some ''score'',
      lf_order := Some ''asc''\<rparr>) = ''l.score ASC''"
    by (simp add: no_lead_filters_def upper_defs)
  from t d have 2: "''score'' \<in> set leads_route_sorts"
    by (simp add: leads_route_sorts_def)
  from t a have 3: "contact_order_by (no_contact_filters\<lparr>cf_sort_by := Some ''name; --'',
      cf_sort_order := Some ''desc''\<rparr>) = ''name DESC''"
    by (simp add: no_contact_filters_def sortField_def sortOrder_def sort_chars_def upper_defs)
  from u b have 4: "contact_order_by no_contact_filters = ''c.created_at DESC''"
    by simp
  from t c have 5: "sortField ''lead_count'' = ''lead_count''"
    by simp
  from 1 2 3 4 5 show ?thesis by simp
qed

text \<open>
  C7 as stated fails: a sort string that no list of fields holds reaches the \<open>ORDER BY\<close>
  text of the lead list unchanged, and no default takes its place; the contact list emits
  a column of another table's alias that passes the character filter.
\<close>

theorem sort_field_counterexample:
  "lead_order_by (no_lead_filters\<lparr>lf_sort := Some ''id, (SELECT 1)''\<rparr>) =
     ''l.id, (SELECT 1) DESC'' \<and>
   ''id, (SELECT 1)'' \<notin> set leads_route_sorts \<and>
   lead_order_by no_lead_filters = ''l.created_at DESC'' \<and>
   contact_order_by (no_contact_filters\<lparr>cf_sort_by := Some ''comp.tenant_id''\<rparr>) =
     ''comp.tenant_id ASC''"
  by (simp add: lead_order_by_def lead_sort_def no_lead_filters_def leads_route_sorts_def
      contact_order_by_def no_contact_filters_def truthy_def sortField_def sortOrder_def
      sort_chars_def upper_defs)

section \<open>Contacts of the ingestion paths\<close>


lemma handle_unknown_tenant:
  "w_tenant_id body \<notin> set (tenants s) \<Longrightarrow>
     handleLeadCaptured s body = (Error 422 ''Invalid tenant ID'', s)"
  by (simp add: handleLeadCaptured_def)

lemma handle_contacts:
  "w_tenant_id body \<in> set (tenants s) \<Longrightarrow>
     contacts (snd (handleLeadCaptured s body)) =
     contacts (snd (webhook_contact s (w_tenant_id body) (w_visitor body)))"
  by (simp add: handleLeadCaptured_def LeadModel_create_def client_insert_activity_def
      client_commit_def client_rollback_def Let_def split: prod.splits option.splits sum.splits)








lemmas webhook_defs =
  handleLeadCaptured_def webhook_contact_def webhook_updateData_def has_keys_def
  no_contact_data_def ContactModel_findByEmailOrPhone_def contact_matches_def
  ContactModel_create_def ContactModel_update_def contact_set_def coalesce_def
  LeadModel_create_def webhook_leadData_def webhook_activity_def webhook_failure_def
  client_insert_activity_def client_commit_def client_rollback_def scan_def visitor_of_def
  truthy_def or_null_def or_default_def sql_eq_def integer_or_null_def in_integer_def
  join_company_def col_def trim_def is_space_def template_def Let_def



section \<open>The matched contact\<close>

lemma find_in_set: "find P xs = Some x \<Longrightarrow> x \<in> set xs \<and> P x"
  by (induction xs) (auto split: if_splits)

lemma same_id_same_row:
  assumes "distinct (map c_id xs)" "x \<in> set xs" "y \<in> set xs" "c_id x = c_id y"
  shows "x = y"
  using assms by (meson distinct_map inj_on_eq_iff)

lemma list_all2_map_self: "list_all2 R xs (map f xs) \<longleftrightarrow> (\<forall>x\<in>set xs. R x (f x))"
  by (induction xs) auto

lemma backfilled_refl: "backfilled v c c"
  by (simp add: backfilled_def)

lemma backfilled_update:
  "backfilled v c (contact_set t (webhook_updateData v c) c)"
  by (auto simp: backfilled_def contact_set_def webhook_updateData_def no_contact_data_def
      coalesce_def truthy_def split: option.splits)

lemma webhook_contact_matched:
  assumes "ContactModel_findByEmailOrPhone s t (v_email v) (v_phone v) = Some (e, cn)"
  shows "contacts (snd (webhook_contact s t (Some v))) = contacts s \<or>
         contacts (snd (webhook_contact s t (Some v))) =
           map (\<lambda>c. if c_id c = c_id e \<and> c_tenant_id c = t
                     then contact_set (now s) (webhook_updateData v e) c else c) (contacts s)"
  using assms by (simp add: webhook_contact_def ContactModel_update_def Let_def)

text \<open>
  C4. When the scanned visitor matches a stored contact (ids being unique in the contact
  table), the webhook changes in the contact table nothing but what the backfill rule
  allows: every contact other than the matched one is unchanged; in the matched one the
  first name and the last name change only if the stored one is empty, to the visitor's, and
  the email, the phone, the date of birth, the company, the source and the external visitor
  id keep their stored values, whatever the visitor's are. The update time is the one
  column that is refreshed.
\<close>

theorem webhook_backfill_frame:
  assumes "distinct (map c_id (contacts s))"
    and "w_visitor body = Some v"
    and "ContactModel_findByEmailOrPhone s (w_tenant_id body) (v_email v) (v_phone v) =
           Some (existing, company_name)"
  shows "list_all2 (\<lambda>stored after. backfilled v stored after \<and>
                      (c_id stored \<noteq> c_id existing \<longrightarrow> after = stored))
           (contacts s) (contacts (snd (handleLeadCaptured s body)))"
proof -
  let ?R = "\<lambda>stored after. backfilled v stored after \<and>
                      (c_id stored \<noteq> c_id existing \<longrightarrow> after = stored)"
  have same: "list_all2 ?R (contacts s) (contacts s)"
    by (simp add: list_all2_same backfilled_refl)
  have ex: "existing \<in> set (contacts s)"
    using assms(3) find_in_set[of "contact_matches (w_tenant_id body) (v_email v) (v_phone v)"
        "contacts s"]
    by (auto simp: ContactModel_findByEmailOrPhone_def split: option.splits)
  have upd: "list_all2 ?R (contacts s)
      (map (\<lambda>c. if c_id c = c_id existing \<and> c_tenant_id c = w_tenant_id body
                 then contact_set (now s) (webhook_updateData v existing) c else c) (contacts s))"
    unfolding list_all2_map_self
  proof
    fix c assume c: "c \<in> set (contacts s)"
    show "?R c (if c_id c = c_id existing \<and> c_tenant_id c = w_tenant_id body
                 then contact_set (now s) (webhook_updateData v existing) c else c)"
    proof (cases "c_id c = c_id existing \<and> c_tenant_id c = w_tenant_id body")
      case True
      then have "c = existing" using same_id_same_row[OF assms(1) c ex] by simp
      then show ?thesis using True by (simp add: backfilled_update)
    next
      case False
      then have "(if c_id c = c_id existing \<and> c_tenant_id c = w_tenant_id body
                 then contact_set (now s) (webhook_updateData v existing) c else c) = c"
        by auto
      then show ?thesis by (simp add: backfilled_refl)
    qed
  qed
  show ?thesis
  proof (cases "w_tenant_id body \<in> set (tenants s)")
    case True
    then show ?thesis
      using webhook_contact_matched[OF assms(3)] same upd
      by (auto simp: handle_contacts assms(2))
  next
    case False
    then show ?thesis using same by (simp add: handle_unknown_tenant)
  qed
qed

theorem webhook_backfill_frame_witness:
  "distinct (map c_id (contacts two_tenants)) \<and>
   ContactModel_findByEmailOrPhone two_tenants 1 (Some ''ann@x.com'') None = Some (ann, None) \<and>
   contacts (snd (handleLeadCaptured two_tenants
      (scan (visitor_of (Some ''Ann'') (Some ''Smith'') (Some ''ann@x.com'') (Some ''KF-2''))))) =
     [ann\<lparr>c_first_name := Some ''Ann'', c_updated_at := 50\<rparr>] \<and>
   backfilled (visitor_of (Some ''Ann'') (Some ''Smith'') (Some ''ann@x.com'') (Some ''KF-2''))
     ann (ann\<lparr>c_first_name := Some ''Ann'', c_updated_at := 50\<rparr>) \<and>
   c_last_name ann = Some ''Lee'' \<and> c_kf_visitor_id ann = Some ''KF-1''"
proof -
  let ?v = "visitor_of (Some ''Ann'') (Some ''Smith'') (Some ''ann@x.com'') (Some ''KF-2'')"
  have d: "distinct (map c_id (contacts two_tenants))"
    by (simp add: two_tenants_defs)
  have w: "w_visitor (scan ?v) = Some ?v"
    by (simp add: scan_def)
  have f: "ContactModel_findByEmailOrPhone two_tenants (w_tenant_id (scan ?v)) (v_email ?v)
             (v_phone ?v) = Some (ann, None)"
    by (simp add: webhook_defs two_tenants_defs)
  have c: "contacts (snd (handleLeadCaptured two_tenants (scan ?v))) =
             [ann\<lparr>c_first_name := Some ''Ann'', c_updated_at := 50\<rparr>]"
    by (simp add: webhook_defs two_tenants_defs)
  have "list_all2 (\<lambda>stored after. backfilled ?v stored after \<and>
                      (c_id stored \<noteq> c_id ann \<longrightarrow> after = stored))
           (contacts two_tenants) (contacts (snd (handleLeadCaptured two_tenants (scan ?v))))"
    by (rule webhook_backfill_frame[OF d w f])
  then have b: "backfilled ?v ann (ann\<lparr>c_first_name := Some ''Ann'', c_updated_at := 50\<rparr>)"
    unfolding c by (simp add: two_tenants_def empty_store_def)
  have "ContactModel_findByEmailOrPhone two_tenants 1 (Some ''ann@x.com'') None = Some (ann, None)"
    using f by (simp add: scan_def visitor_of_def)
  then show ?thesis using d c b by (simp add: ann_def)
qed

section \<open>Scanning the same visitor twice\<close>


lemma find_append_new: "find P xs = None \<Longrightarrow> P y \<Longrightarrow> find P (xs @ [y]) = Some y"
  by (induction xs) (auto split: if_splits)














section \<open>Tagging a lead twice\<close>

lemma createOrGet_found:
  assumes "find (\<lambda>x. t_tenant_id x = t \<and> t_name x = trim N) (tags s) = Some c"
  shows "TagModel_createOrGet s t N = ((t_id c, trim N), s)"
proof -
  have c: "t_name c = trim N"
    using assms by (auto simp: find_Some_iff)
  have "map (\<lambda>x. if t_id x = t_id c \<and> t_tenant_id x = t_tenant_id c \<and> t_name x = t_name c
                  then x\<lparr>t_name := trim N\<rparr> else x) (tags s) = tags s"
    by (rule map_idI) (simp add: c)
  then show ?thesis
    using assms by (simp add: TagModel_createOrGet_def insert_tag_def Let_def)
qed

lemma createOrGet_new:
  assumes "find (\<lambda>x. t_tenant_id x = t \<and> t_name x = trim N) (tags s) = None"
  shows "TagModel_createOrGet s t N =
           ((next_id s, trim N),
            s\<lparr>tags := tags s @ [\<lparr>t_id = next_id s, t_tenant_id = t, t_name = trim N\<rparr>],
              next_id := Suc (next_id s)\<rparr>)"
  using assms by (simp add: TagModel_createOrGet_def insert_tag_def Let_def)

lemma createOrGet_resolves:
  "\<exists>c s1. TagModel_createOrGet s t N = ((t_id c, trim N), s1) \<and>
          find (\<lambda>x. t_tenant_id x = t \<and> t_name x = trim N) (tags s1) = Some c \<and>
          lead_tags s1 = lead_tags s"
proof (cases "find (\<lambda>x. t_tenant_id x = t \<and> t_name x = trim N) (tags s)")
  case None
  let ?row = "\<lparr>t_id = next_id s, t_tenant_id = t, t_name = trim N\<rparr>"
  let ?s1 = "s\<lparr>tags := tags s @ [?row], next_id := Suc (next_id s)\<rparr>"
  have "find (\<lambda>x. t_tenant_id x = t \<and> t_name x = trim N) (tags s @ [?row]) = Some ?row"
    using None by (rule find_append_new) simp
  then have "TagModel_createOrGet s t N = ((t_id ?row, trim N), ?s1) \<and>
          find (\<lambda>x. t_tenant_id x = t \<and> t_name x = trim N) (tags ?s1) = Some ?row \<and>
          lead_tags ?s1 = lead_tags s"
    using createOrGet_new[OF None] by simp
  then show ?thesis by (intro exI[of _ ?row] exI[of _ ?s1])
next
  case (Some c)
  then have "TagModel_createOrGet s t N = ((t_id c, trim N), s) \<and>
          find (\<lambda>x. t_tenant_id x = t \<and> t_name x = trim N) (tags s) = Some c \<and>
          lead_tags s = lead_tags s"
    by (simp add: createOrGet_found)
  then show ?thesis by (intro exI[of _ c] exI[of _ s])
qed

lemma linkToLead_links:
  "\<exists>s2. TagModel_linkToLead s L i = Inr s2 \<and> tags s2 = tags s \<and>
        (L, i) \<in> set (lead_tags s2) \<and> (distinct (lead_tags s) \<longrightarrow> distinct (lead_tags s2))"
  by (simp add: TagModel_linkToLead_def insert_lead_tag_def)

lemma linkToLead_linked:
  "(L, i) \<in> set (lead_tags s) \<Longrightarrow> TagModel_linkToLead s L i = Inr s"
  by (simp add: TagModel_linkToLead_def insert_lead_tag_def)

lemma count_in_distinct: "distinct xs \<Longrightarrow> x \<in> set xs \<Longrightarrow> count_list xs x = 1"
  by (induction xs) auto

text \<open>
  C6. \<open>TagModel.createOrGet\<close> and \<open>TagModel.linkToLead\<close>, called in turn twice with names of
  the same trimmed text, never fail: both resolutions return the same tag id (with the
  trimmed name), the id of the first tag row of the tenant with that name; the second
  resolution and the second link leave the store as it was; and, the join table holding no
  pair twice before, it holds the pair of the lead and the tag exactly once afterwards.
\<close>

theorem tag_link_is_idempotent:
  assumes "trim N2 = trim N1" "distinct (lead_tags s)"
  shows "\<exists>i s1 s2.
    TagModel_createOrGet s t N1 = ((i, trim N1), s1) \<and>
    TagModel_linkToLead s1 L i = Inr s2 \<and>
    TagModel_createOrGet s2 t N2 = ((i, trim N1), s2) \<and>
    TagModel_linkToLead s2 L i = Inr s2 \<and>
    count_list (lead_tags s2) (L, i) = 1 \<and>
    (\<exists>row. find (\<lambda>x. t_tenant_id x = t \<and> t_name x = trim N1) (tags s2) = Some row \<and>
           t_id row = i)"
proof -
  from createOrGet_resolves[of s t N1] obtain c s1 where
    r1: "TagModel_createOrGet s t N1 = ((t_id c, trim N1), s1)"
        "find (\<lambda>x. t_tenant_id x = t \<and> t_name x = trim N1) (tags s1) = Some c"
        "lead_tags s1 = lead_tags s"
    by (elim exE conjE) (rule that)
  from linkToLead_links[of s1 L "t_id c"] obtain s2 where
    l1: "TagModel_linkToLead s1 L (t_id c) = Inr s2" "tags s2 = tags s1"
        "(L, t_id c) \<in> set (lead_tags s2)"
        "distinct (lead_tags s1) \<longrightarrow> distinct (lead_tags s2)"
    by (elim exE conjE) (rule that)
  have f2: "find (\<lambda>x. t_tenant_id x = t \<and> t_name x = trim N2) (tags s2) = Some c"
    unfolding assms(1) l1(2) by (rule r1(2))
  have r2: "TagModel_createOrGet s2 t N2 = ((t_id c, trim N1), s2)"
    using createOrGet_found[OF f2] by (simp add: assms(1))
  have l2: "TagModel_linkToLead s2 L (t_id c) = Inr s2"
    using l1(3) by (rule linkToLead_linked)
  have "distinct (lead_tags s2)"
    using l1(4) assms(2) by (simp add: r1(3))
  then have n: "count_list (lead_tags s2) (L, t_id c) = 1"
    using l1(3) by (rule count_in_distinct)
  have row: "\<exists>row. find (\<lambda>x. t_tenant_id x = t \<and> t_name x = trim N1) (tags s2) = Some row \<and>
           t_id row = t_id c"
    using r1(2) by (simp add: l1(2))
  show ?thesis
    using r1(1) l1(1) r2 l2 n row by (intro exI[of _ "t_id c"] exI[of _ s1] exI[of _ s2]) simp
qed

theorem tag_link_is_idempotent_witness:
  "trim '' hot '' = trim ''hot'' \<and> distinct (lead_tags two_tenants) \<and>
   (\<exists>s1 s2. TagModel_createOrGet two_tenants 1 ''hot'' = ((100, ''hot''), s1) \<and>
            TagModel_linkToLead s1 20 100 = Inr s2 \<and>
            TagModel_createOrGet s2 1 '' hot '' = ((100, ''hot''), s2) \<and>
            TagModel_linkToLead s2 20 100 = Inr s2 \<and>
            lead_tags s2 = [(20, 100)] \<and> map t_name (tags s2) = [''hot''])"
proof -
  have t: "trim '' hot '' = trim ''hot''"
    by (simp add: trim_def is_space_def)
  have h: "trim ''hot'' = ''hot''"
    by (simp add: trim_def is_space_def)
  have d: "distinct (lead_tags two_tenants)"
    by (simp add: two_tenants_defs)
  have n: "find (\<lambda>x. t_tenant_id x = 1 \<and> t_name x = trim ''hot'') (tags two_tenants) = None"
    by (simp add: two_tenants_defs)
  have first: "TagModel_createOrGet two_tenants 1 ''hot'' =
     ((100, ''hot''),
      two_tenants\<lparr>tags := [\<lparr>t_id = 100, t_tenant_id = 1, t_name = ''hot''\<rparr>], next_id := 101\<rparr>)"
    using createOrGet_new[OF n] by (simp add: h two_tenants_defs)
  from tag_link_is_idempotent[OF t d, of 1 20] obtain i s1 s2 where
    r: "TagModel_createOrGet two_tenants 1 ''hot'' = ((i, trim ''hot''), s1)"
       "TagModel_linkToLead s1 20 i = Inr s2"
       "TagModel_createOrGet s2 1 '' hot '' = ((i, trim ''hot''), s2)"
       "TagModel_linkToLead s2 20 i = Inr s2"
    by (elim exE conjE) (rule that)
  have i: "i = 100"
    and s1: "s1 = two_tenants\<lparr>tags := [\<lparr>t_id = 100, t_tenant_id = 1, t_name = ''hot''\<rparr>],
                            next_id := 101\<rparr>"
    using r(1) first by simp_all
  have s2: "lead_tags s2 = [(20, 100)] \<and> map t_name (tags s2) = [''hot'']"
    using r(2) unfolding s1 i
    by (auto simp: TagModel_linkToLead_def insert_lead_tag_def two_tenants_defs)
  show ?thesis
    using t d r s2 by (intro conjI exI[of _ s1] exI[of _ s2]) (simp_all add: i h)
qed

end
